theory Spec2Isabelle
  imports Main
begin

section \<open>DC/OS Launch: the command-line orchestrator of \<open>test_util/launch_cli.py\<close>\<close>

text \<open>
  The module parses its command line with docopt, configures logging, and then runs one
  of five commands (create, wait, describe, pytest, delete) against a launcher object
  chosen from a configuration or cluster-info document. Everything it imports or takes
  from the Python runtime (\<open>load_yaml\<close>, \<open>load_json\<close>, \<open>write_json\<close>, \<open>json_prettyprint\<close>,
  \<open>get_launcher\<close>, the launcher's methods, \<open>os.path.exists\<close>, \<open>repr\<close>, \<open>str.upper\<close>) is a
  parameter of the model; the model is the control flow of \<open>_handle_logging\<close>, \<open>do_main\<close>
  and \<open>main\<close>, with every raise of the source as a branch and every call of a collaborator
  recorded in a trace. Writing a line to standard output, configuring a logger and
  \<open>repr\<close> are taken to succeed.
\<close>

subsection \<open>Exceptions\<close>

text \<open>
  \<open>LauncherError(kind, msg)\<close> and \<open>YamlParseError\<close> are the two classes \<open>main\<close> catches.
  \<open>OtherException\<close> stands for an exception of any other class (\<open>KeyError\<close>,
  \<open>FileNotFoundError\<close>, \<open>SystemExit\<close>, ...), tagged with the class name.
\<close>

datatype exn =
    LauncherError string string
  | YamlParseError string
  | OtherException string

subsection \<open>Strings\<close>

text \<open>
  A Python string is modelled by the \<open>string\<close> of its UTF-8 bytes. On that encoding
  \<open>',' in s\<close>, \<open>s.split(',')\<close>, \<open>sep.join\<close>, concatenation and comparison with an ASCII
  literal are the operations on bytes below: the bytes of an ASCII character occur in
  the encoding of no other character. \<open>str_split\<close> is \<open>str.split(sep)\<close> for a one-character
  separator (it never returns the empty list, and the empty string splits into one empty
  string); \<open>str_join\<close> is \<open>sep.join\<close>.

  \<open>str.upper\<close> is a function of the Python runtime that follows the Unicode case
  mappings; it is a parameter of the model (\<open>str_upper\<close> below, with the collaborators).
  \<open>ascii_upper\<close> is the part of it that is fixed here: on a string of ASCII characters
  \<open>str.upper\<close> maps \<open>a\<close>..\<open>z\<close> to \<open>A\<close>..\<open>Z\<close> and leaves the rest alone.
\<close>

definition ascii_upper_char :: "char \<Rightarrow> char" where
  "ascii_upper_char c =
     (let n = (of_char c :: nat)
      in if of_char CHR ''a'' \<le> n \<and> n \<le> of_char CHR ''z'' then char_of (n - 32) else c)"

definition ascii_upper :: "string \<Rightarrow> string" where
  "ascii_upper s = map ascii_upper_char s"

definition is_ascii :: "string \<Rightarrow> bool" where
  "is_ascii s = list_all (\<lambda>c. (of_char c :: nat) < 128) s"

fun str_split :: "char \<Rightarrow> string \<Rightarrow> string list" where
  "str_split sep [] = [[]]"
| "str_split sep (c # cs) =
     (if c = sep then [] # str_split sep cs
      else (case str_split sep cs of
              [] \<Rightarrow> [[c]]
            | x # xs \<Rightarrow> (c # x) # xs))"

fun str_join :: "string \<Rightarrow> string list \<Rightarrow> string" where
  "str_join sep [] = []"
| "str_join sep [x] = x"
| "str_join sep (x # y # ys) = x @ sep @ str_join sep (y # ys)"

subsection \<open>Documents, launchers, collaborators\<close>

text \<open>
  A document (configuration or cluster info) is a mapping from string keys to values of
  an arbitrary type \<open>'v\<close>. \<open>getitem\<close> is Python's \<open>d[k]\<close>, which raises \<open>KeyError\<close> on a
  missing key.
\<close>

type_synonym 'v doc = "string \<Rightarrow> 'v option"

definition getitem :: "(string \<Rightarrow> 'a option) \<Rightarrow> string \<Rightarrow> exn + 'a" where
  "getitem d k = (case d k of None \<Rightarrow> Inl (OtherException ''KeyError'') | Some v \<Rightarrow> Inr v)"

text \<open>
  The launcher object returned by \<open>get_launcher\<close>: its five methods, each of which
  returns a value or raises. \<open>test_op\<close> returns the exit status of the test run. What a
  method does to the cluster it manages is outside the model: the world below records
  what the orchestrator itself does.
\<close>

record 'v launcher =
  create_op :: "'v doc \<Rightarrow> exn + 'v doc"
  wait_op :: "'v doc \<Rightarrow> exn + unit"
  describe_op :: "'v doc \<Rightarrow> exn + 'v doc"
  test_op :: "'v doc \<Rightarrow> string \<Rightarrow> exn + int"
  delete_op :: "'v doc \<Rightarrow> exn + unit"

text \<open>
  The imported functions, over a file system of an arbitrary type \<open>'fs\<close>.
  \<open>write_json\<close> returns the file system it leaves behind together with its outcome;
  \<open>repr\<close> is \<open>repr(ex)\<close> of a caught exception; \<open>str_upper\<close> is \<open>str.upper\<close>.
\<close>

record ('fs, 'v) collab =
  path_exists :: "'fs \<Rightarrow> string \<Rightarrow> bool"
  load_yaml :: "'fs \<Rightarrow> string \<Rightarrow> exn + 'v doc"
  load_json :: "'fs \<Rightarrow> string \<Rightarrow> exn + 'v doc"
  write_json :: "string \<Rightarrow> 'v doc \<Rightarrow> 'fs \<Rightarrow> (exn + unit) \<times> 'fs"
  get_launcher :: "'v \<Rightarrow> 'v \<Rightarrow> exn + 'v launcher"
  json_prettyprint :: "'v doc \<Rightarrow> exn + string"
  repr :: "exn \<Rightarrow> string"
  str_upper :: "string \<Rightarrow> string"

text \<open>
  Modelled from the spec: \<open>check_keys\<close> of \<open>test_util.launch\<close>, which is imported by the
  module and absent from the sources. The spec's validator fails with a
  \<open>MissingKeys\<close>-kind error naming every missing key when the document lacks any of the
  required keys, as a set difference between the required keys and the document's own
  keys, and has no side effect. The message is the missing keys joined by commas.
\<close>

definition check_keys :: "(string \<Rightarrow> 'a option) \<Rightarrow> string list \<Rightarrow> exn + unit" where
  "check_keys user_dict key_list =
     (let missing = filter (\<lambda>k. user_dict k = None) key_list
      in if missing = [] then Inr ()
         else Inl (LauncherError ''MissingKeys'' (str_join '','' missing)))"

subsection \<open>The world the orchestrator acts on\<close>

text \<open>
  The trace records, in order, each call the orchestrator makes to a collaborator or to
  the process environment.
\<close>

datatype 'v event =
    Exists string
  | LoadYaml string
  | LoadJson string
  | WriteJson string "'v doc"
  | GetLauncher 'v 'v
  | LaunchCreate "'v doc"
  | LaunchWait "'v doc"
  | LaunchDescribe "'v doc"
  | LaunchTest "'v doc" string
  | LaunchDelete "'v doc"
  | EnvironCheck "string list"
  | EnvironGet string

text \<open>
  \<open>files\<close> is the file system, \<open>environ\<close> is \<open>os.environ\<close>, \<open>stdout\<close> the lines printed,
  \<open>root_level\<close> the level of the root logger once \<open>logging.basicConfig\<close> has configured
  it, \<open>logger_level\<close> the levels set on named loggers.
\<close>

record ('fs, 'v) world =
  files :: 'fs
  environ :: "string \<Rightarrow> string option"
  stdout :: "string list"
  root_level :: "int option"
  logger_level :: "string \<Rightarrow> int option"
  trace :: "'v event list"

type_synonym ('fs, 'v, 'a) prog = "('fs, 'v) world \<Rightarrow> (exn + 'a) \<times> ('fs, 'v) world"

definition return_m :: "'a \<Rightarrow> ('fs, 'v, 'a) prog" where
  "return_m a w = (Inr a, w)"

definition raise_m :: "exn \<Rightarrow> ('fs, 'v, 'a) prog" where
  "raise_m e w = (Inl e, w)"

definition bind_m :: "('fs, 'v, 'a) prog \<Rightarrow> ('a \<Rightarrow> ('fs, 'v, 'b) prog) \<Rightarrow> ('fs, 'v, 'b) prog" where
  "bind_m m f w = (case m w of (Inl e, w') \<Rightarrow> (Inl e, w') | (Inr a, w') \<Rightarrow> f a w')"

definition lift_m :: "exn + 'a \<Rightarrow> ('fs, 'v, 'a) prog" where
  "lift_m r w = (r, w)"

definition log_event :: "'v event \<Rightarrow> ('fs, 'v) world \<Rightarrow> ('fs, 'v) world" where
  "log_event ev w = w\<lparr>trace := trace w @ [ev]\<rparr>"

definition call_m :: "'v event \<Rightarrow> exn + 'a \<Rightarrow> ('fs, 'v, 'a) prog" where
  "call_m ev r w = (r, log_event ev w)"

definition print_m :: "string \<Rightarrow> ('fs, 'v, unit) prog" where
  "print_m s w = (Inr (), w\<lparr>stdout := stdout w @ [s]\<rparr>)"

subsection \<open>Logging\<close>

text \<open>The levels of Python's \<open>logging\<close> module.\<close>

definition logging_CRITICAL :: int where "logging_CRITICAL = 50"
definition logging_ERROR :: int where "logging_ERROR = 40"
definition logging_WARNING :: int where "logging_WARNING = 30"
definition logging_INFO :: int where "logging_INFO = 20"
definition logging_DEBUG :: int where "logging_DEBUG = 10"

text \<open>
  The \<open>if\<close>/\<open>elif\<close> chain of \<open>_handle_logging\<close> that chooses \<open>log_level\<close>, or raises.
  \<open>handle_logging\<close> below is \<open>_handle_logging\<close>; \<open>dampen\<close> is its loop over the loud loggers.
\<close>

definition level_of_str :: "string \<Rightarrow> exn + int" where
  "level_of_str log_level_str =
     (if log_level_str = ''CRITICAL'' then Inr logging_CRITICAL
      else if log_level_str = ''ERROR'' then Inr logging_ERROR
      else if log_level_str = ''WARNING'' then Inr logging_WARNING
      else if log_level_str = ''INFO'' then Inr logging_INFO
      else if log_level_str = ''DEBUG'' \<or> log_level_str = ''TRACE'' then Inr logging_DEBUG
      else Inl (LauncherError ''InvalidOption'' (log_level_str @ '' is not a valid log level'')))"

text \<open>
  \<open>logging.basicConfig\<close> configures the root logger unless it is configured already.
\<close>

definition basicConfig :: "int \<Rightarrow> ('fs, 'v, unit) prog" where
  "basicConfig level w =
     (Inr (), if root_level w = None then w\<lparr>root_level := Some level\<rparr> else w)"

definition setLevel :: "string \<Rightarrow> int \<Rightarrow> ('fs, 'v, unit) prog" where
  "setLevel module level w = (Inr (), w\<lparr>logger_level := (logger_level w)(module \<mapsto> level)\<rparr>)"

fun dampen :: "string list \<Rightarrow> int \<Rightarrow> ('fs, 'v, unit) prog" where
  "dampen [] level = return_m ()"
| "dampen (module # modules) level =
     bind_m (setLevel module level) (\<lambda>_. dampen modules level)"

definition handle_logging :: "string \<Rightarrow> ('fs, 'v, unit) prog" where
  "handle_logging log_level_str =
     bind_m (lift_m (level_of_str log_level_str)) (\<lambda>log_level.
     bind_m (basicConfig log_level) (\<lambda>_.
     if log_level_str \<in> set [''TRACE'', ''CRITICAL''] then return_m ()
     else dampen [''botocore'', ''boto3''] (log_level + 10)))"

subsection \<open>The parsed command line\<close>

text \<open>
  The dictionary docopt builds from the usage text: one flag per command, and the
  options. \<open>env\<close> is \<open>None\<close> when \<open>--env\<close> is not given; the other options have the
  defaults of the usage text.
\<close>

record args =
  create :: bool
  wait :: bool
  describe :: bool
  pytest :: bool
  delete :: bool
  log_level :: string
  config_path :: string
  info_path :: string
  env :: "string option"
  pytest_extras :: "string list"

definition default_log_level :: string where "default_log_level = ''info''"
definition default_config_path :: string where "default_config_path = ''config.yaml''"
definition default_info_path :: string where "default_info_path = ''cluster_info.json''"

text \<open>
  docopt matches exactly one of the five usage patterns, so exactly one command flag is
  set: \<open>invokes args cmd\<close> says it is the flag of \<open>cmd\<close>.
\<close>

datatype command = Create | Wait | Describe | Pytest | Delete

definition invokes :: "args \<Rightarrow> command \<Rightarrow> bool" where
  "invokes a cmd =
     (create a = (cmd = Create) \<and> wait a = (cmd = Wait) \<and> describe a = (cmd = Describe)
      \<and> pytest a = (cmd = Pytest) \<and> delete a = (cmd = Delete))"

subsection \<open>Calls to the collaborators\<close>

definition exists_m :: "('fs, 'v) collab \<Rightarrow> string \<Rightarrow> ('fs, 'v, bool) prog" where
  "exists_m c path w = call_m (Exists path) (Inr (path_exists c (files w) path)) w"

definition load_yaml_m :: "('fs, 'v) collab \<Rightarrow> string \<Rightarrow> ('fs, 'v, 'v doc) prog" where
  "load_yaml_m c path w = call_m (LoadYaml path) (load_yaml c (files w) path) w"

definition load_json_m :: "('fs, 'v) collab \<Rightarrow> string \<Rightarrow> ('fs, 'v, 'v doc) prog" where
  "load_json_m c path w = call_m (LoadJson path) (load_json c (files w) path) w"

definition write_json_m :: "('fs, 'v) collab \<Rightarrow> string \<Rightarrow> 'v doc \<Rightarrow> ('fs, 'v, unit) prog" where
  "write_json_m c path d w =
     (case write_json c path d (files w) of
        (r, fs') \<Rightarrow> (r, log_event (WriteJson path d) (w\<lparr>files := fs'\<rparr>)))"

definition get_launcher_m :: "('fs, 'v) collab \<Rightarrow> 'v \<Rightarrow> 'v \<Rightarrow> ('fs, 'v, 'v launcher) prog" where
  "get_launcher_m c t p = call_m (GetLauncher t p) (get_launcher c t p)"

definition environ_check :: "string list \<Rightarrow> ('fs, 'v, unit) prog" where
  "environ_check key_list w = call_m (EnvironCheck key_list) (check_keys (environ w) key_list) w"

definition environ_get :: "string \<Rightarrow> ('fs, 'v, string) prog" where
  "environ_get e w = call_m (EnvironGet e) (getitem (environ w) e) w"

subsection \<open>The test command\<close>

text \<open>
  The list comprehension \<open>['{}={}'.format(e, os.environ[e]) for e in var_list]\<close>.
\<close>

fun env_assignments :: "string list \<Rightarrow> ('fs, 'v, string list) prog" where
  "env_assignments [] = return_m []"
| "env_assignments (e # es) =
     bind_m (environ_get e) (\<lambda>v.
     bind_m (env_assignments es) (\<lambda>rest.
     return_m ((e @ ''='' @ v) # rest)))"

definition option_error_msg :: string where
  "option_error_msg =
     ''The '' @ [CHR 0x27] @ ''--env'' @ [CHR 0x27] @
     '' option can only pass through environment variables '' @
     ''from the current environment. Set variables according to the shell being used.''"

definition option_error :: exn where
  "option_error = LauncherError ''OptionError'' option_error_msg"

text \<open>The block under \<open>if args['--env'] is not None\<close>.\<close>

definition env_prefix :: "string option \<Rightarrow> string \<Rightarrow> ('fs, 'v, string) prog" where
  "env_prefix env_opt test_cmd =
     (case env_opt of
        None \<Rightarrow> return_m test_cmd
      | Some env_str \<Rightarrow>
          if CHR ''='' \<in> set env_str then raise_m option_error
          else
            let var_list = str_split CHR '','' env_str
            in bind_m (environ_check var_list) (\<lambda>_.
               bind_m (env_assignments var_list) (\<lambda>assignments.
               return_m (str_join '' '' assignments @ '' '' @ test_cmd))))"

text \<open>The block under \<open>if len(args['<pytest_extras>']) > 0\<close>.\<close>

definition add_extras :: "string list \<Rightarrow> string \<Rightarrow> string" where
  "add_extras extras test_cmd =
     (if length extras > 0 then test_cmd @ '' '' @ str_join '' '' extras else test_cmd)"

subsection \<open>\<open>do_main\<close>, \<open>main\<close> and the process\<close>

text \<open>
  \<open>do_main\<close> returns \<open>Some 0\<close> where the source returns 0 and \<open>None\<close> where it falls off
  its end.
\<close>

definition do_main :: "('fs, 'v) collab \<Rightarrow> args \<Rightarrow> ('fs, 'v, int option) prog" where
  "do_main c a =
     bind_m (handle_logging (str_upper c (log_level a))) (\<lambda>_.
     if create a then
       bind_m (exists_m c (info_path a)) (\<lambda>ex.
       if ex then raise_m (LauncherError ''InputConflict'' ''Target info path already exists!'')
       else
         bind_m (load_yaml_m c (config_path a)) (\<lambda>config.
         bind_m (lift_m (check_keys config
            [''type'', ''provider_info'',
             ''this_is_a_temporary_config_format_do_not_put_in_production''])) (\<lambda>_.
         bind_m (lift_m (getitem config ''type'')) (\<lambda>t.
         bind_m (lift_m (getitem config ''provider_info'')) (\<lambda>p.
         bind_m (get_launcher_m c t p) (\<lambda>launcher.
         bind_m (call_m (LaunchCreate config) (create_op launcher config)) (\<lambda>info.
         bind_m (write_json_m c (info_path a) info) (\<lambda>_.
         return_m (Some 0)))))))))
     else
       bind_m (load_json_m c (info_path a)) (\<lambda>info.
       bind_m (lift_m (check_keys info [''type'', ''provider''])) (\<lambda>_.
       bind_m (lift_m (getitem info ''type'')) (\<lambda>t.
       bind_m (lift_m (getitem info ''provider'')) (\<lambda>p.
       bind_m (get_launcher_m c t p) (\<lambda>launcher.
       if wait a then
         bind_m (call_m (LaunchWait info) (wait_op launcher info)) (\<lambda>_.
         bind_m (print_m ''Cluster is ready!'') (\<lambda>_.
         return_m (Some 0)))
       else if describe a then
         bind_m (call_m (LaunchDescribe info) (describe_op launcher info)) (\<lambda>description.
         bind_m (lift_m (json_prettyprint c description)) (\<lambda>text.
         bind_m (print_m text) (\<lambda>_.
         return_m (Some 0))))
       else if pytest a then
         bind_m (env_prefix (env a) ''py.test'') (\<lambda>test_cmd.
         bind_m (return_m (add_extras (pytest_extras a) test_cmd)) (\<lambda>test_cmd.
         bind_m (call_m (LaunchTest info test_cmd) (test_op launcher info test_cmd)) (\<lambda>_.
         return_m (Some 0))))
       else if delete a then
         bind_m (call_m (LaunchDelete info) (delete_op launcher info)) (\<lambda>_.
         return_m (Some 0))
       else return_m None))))))"

text \<open>The classes named by the \<open>except\<close> clause of \<open>main\<close>.\<close>

fun caught :: "exn \<Rightarrow> bool" where
  "caught (LauncherError kind msg) = True"
| "caught (YamlParseError msg) = True"
| "caught (OtherException cls) = False"

text \<open>
  \<open>main\<close> after docopt has parsed the command line. An exception of a class the \<open>except\<close>
  clause does not name leaves \<open>main\<close> as it is.
\<close>

definition main :: "('fs, 'v) collab \<Rightarrow> args \<Rightarrow> ('fs, 'v, int option) prog" where
  "main c a w =
     (case do_main c a w of
        (Inr r, w') \<Rightarrow> (Inr r, w')
      | (Inl ex, w') \<Rightarrow>
          if caught ex then
            bind_m (print_m ''DC/OS Launch encountered an error!'') (\<lambda>_.
            bind_m (print_m (repr c ex)) (\<lambda>_.
            return_m (Some 1))) w'
          else (Inl ex, w'))"

text \<open>
  \<open>sys.exit(main())\<close>: the process exits with the integer \<open>main\<close> returns, with 0 when
  \<open>main\<close> returns \<open>None\<close>. An exception that leaves \<open>main\<close> reaches the interpreter
  uncaught; what the interpreter does with it depends on its class (a traceback and
  status 1 for an ordinary exception, a silent exit with the status it carries for
  \<open>SystemExit\<close>) and is not modelled.
\<close>

datatype outcome = Exit int | Uncaught exn

definition run :: "('fs, 'v) collab \<Rightarrow> args \<Rightarrow> ('fs, 'v) world \<Rightarrow> outcome \<times> ('fs, 'v) world" where
  "run c a w =
     (case main c a w of
        (Inr None, w') \<Rightarrow> (Exit 0, w')
      | (Inr (Some n), w') \<Rightarrow> (Exit n, w')
      | (Inl ex, w') \<Rightarrow> (Uncaught ex, w'))"

subsection \<open>Vocabulary for the properties\<close>

text \<open>
  The level names of the usage text. A value is accepted when \<open>str.upper\<close> takes it to
  the upper-case spelling of one of them.
\<close>

definition level_names :: "string list" where
  "level_names = [''critical'', ''error'', ''warning'', ''info'', ''debug'', ''trace'']"

definition accepts_level :: "('fs, 'v) collab \<Rightarrow> string \<Rightarrow> bool" where
  "accepts_level c s = (str_upper c s \<in> set (map ascii_upper level_names))"

text \<open>\<open>str.upper\<close> on the strings of ASCII characters.\<close>

definition ascii_faithful :: "(string \<Rightarrow> string) \<Rightarrow> bool" where
  "ascii_faithful up = (\<forall>s. is_ascii s \<longrightarrow> up s = ascii_upper s)"

text \<open>The events recorded while the world went from \<open>w\<close> to \<open>w'\<close>.\<close>

definition emitted :: "('fs, 'v) world \<Rightarrow> ('fs, 'v) world \<Rightarrow> 'v event list" where
  "emitted w w' = drop (length (trace w)) (trace w')"

fun is_write :: "'v event \<Rightarrow> bool" where
  "is_write (WriteJson path d) = True"
| "is_write ev = False"

fun is_launch_create :: "'v event \<Rightarrow> bool" where
  "is_launch_create (LaunchCreate config) = True"
| "is_launch_create ev = False"

fun is_launch_test :: "'v event \<Rightarrow> bool" where
  "is_launch_test (LaunchTest info cmd) = True"
| "is_launch_test ev = False"

fun is_environ_lookup :: "'v event \<Rightarrow> bool" where
  "is_environ_lookup (EnvironCheck key_list) = True"
| "is_environ_lookup (EnvironGet e) = True"
| "is_environ_lookup ev = False"

fun is_environ_get :: "'v event \<Rightarrow> bool" where
  "is_environ_get (EnvironGet e) = True"
| "is_environ_get ev = False"

fun is_load_yaml :: "'v event \<Rightarrow> bool" where
  "is_load_yaml (LoadYaml path) = True"
| "is_load_yaml ev = False"

subsection \<open>A concrete instance: the fake provider\<close>

text \<open>
  A file system that maps a path to the document stored there, loaders that raise
  \<open>FileNotFoundError\<close> on a missing file, and a registry with two providers: \<open>fake\<close>,
  whose operations all succeed (its test run ends with status 3), and \<open>failing\<close>, whose
  create raises.

  \<open>utf8_upper\<close> is \<open>str.upper\<close> on the strings made of ASCII characters and of the
  dotless i (U+0131, the bytes C4 B1 in UTF-8), which \<open>str.upper\<close> takes to \<open>I\<close>.
  \<open>dotless_info\<close> is the word \<open>info\<close> written with that letter.
\<close>

fun utf8_upper :: "string \<Rightarrow> string" where
  "utf8_upper [] = []"
| "utf8_upper [c] = [ascii_upper_char c]"
| "utf8_upper (c # d # cs) =
     (if c = CHR 0xC4 \<and> d = CHR 0xB1 then CHR ''I'' # utf8_upper cs
      else ascii_upper_char c # utf8_upper (d # cs))"

declare utf8_upper.simps [simp del]

definition dotless_info :: string where
  "dotless_info = [CHR 0xC4, CHR 0xB1] @ ''nfo''"

type_synonym fake_fs = "string \<Rightarrow> string doc option"

definition fake_info :: "string doc" where
  "fake_info = [''type'' \<mapsto> ''fake'', ''provider'' \<mapsto> ''local'']"

definition fake_config :: "string doc" where
  "fake_config = [''type'' \<mapsto> ''fake'', ''provider_info'' \<mapsto> ''none'',
     ''this_is_a_temporary_config_format_do_not_put_in_production'' \<mapsto> ''true'']"

definition failing_config :: "string doc" where
  "failing_config = [''type'' \<mapsto> ''failing'', ''provider_info'' \<mapsto> ''none'',
     ''this_is_a_temporary_config_format_do_not_put_in_production'' \<mapsto> ''true'']"

definition fake_launcher :: "string launcher" where
  "fake_launcher =
     \<lparr>create_op = (\<lambda>config. Inr fake_info),
      wait_op = (\<lambda>info. Inr ()),
      describe_op = (\<lambda>info. Inr info),
      test_op = (\<lambda>info cmd. Inr 3),
      delete_op = (\<lambda>info. Inr ())\<rparr>"

definition failing_launcher :: "string launcher" where
  "failing_launcher =
     fake_launcher\<lparr>create_op := (\<lambda>config. Inl (LauncherError ''ProvisionError'' ''no capacity''))\<rparr>"

definition fake_load :: "fake_fs \<Rightarrow> string \<Rightarrow> exn + string doc" where
  "fake_load fs path =
     (case fs path of None \<Rightarrow> Inl (OtherException ''FileNotFoundError'') | Some d \<Rightarrow> Inr d)"

definition fake_repr :: "exn \<Rightarrow> string" where
  "fake_repr ex =
     (case ex of
        LauncherError kind msg \<Rightarrow> kind @ '': '' @ msg
      | YamlParseError msg \<Rightarrow> ''YamlParseError: '' @ msg
      | OtherException cls \<Rightarrow> cls)"

definition fake_collab :: "(fake_fs, string) collab" where
  "fake_collab =
     \<lparr>path_exists = (\<lambda>fs path. fs path \<noteq> None),
      load_yaml = fake_load,
      load_json = fake_load,
      write_json = (\<lambda>path d fs. (Inr (), fs(path \<mapsto> d))),
      get_launcher = (\<lambda>t p.
         if t = ''fake'' then Inr fake_launcher
         else if t = ''failing'' then Inr failing_launcher
         else Inl (LauncherError ''UnsupportedProvider'' t)),
      json_prettyprint = (\<lambda>d. Inr (case d ''type'' of None \<Rightarrow> ''{}'' | Some t \<Rightarrow> ''{type: '' @ t @ ''}'')),
      repr = fake_repr,
      str_upper = utf8_upper\<rparr>"

text \<open>A process that has just started: nothing printed, logging not configured.\<close>

definition start_world :: "'fs \<Rightarrow> (string \<Rightarrow> string option) \<Rightarrow> ('fs, 'v) world" where
  "start_world fs environment =
     \<lparr>files = fs, environ = environment, stdout = [], root_level = None,
      logger_level = Map.empty, trace = []\<rparr>"

text \<open>The command line \<open>dcos-launch cmd\<close> with every option at its default.\<close>

definition cli :: "command \<Rightarrow> args" where
  "cli cmd =
     \<lparr>create = (cmd = Create), wait = (cmd = Wait), describe = (cmd = Describe),
      pytest = (cmd = Pytest), delete = (cmd = Delete),
      log_level = default_log_level, config_path = default_config_path,
      info_path = default_info_path, env = None, pytest_extras = []\<rparr>"

definition no_files :: fake_fs where
  "no_files = Map.empty"

definition config_only :: fake_fs where
  "config_only = [''config.yaml'' \<mapsto> fake_config]"

definition cluster_up :: fake_fs where
  "cluster_up = [''config.yaml'' \<mapsto> fake_config, ''cluster_info.json'' \<mapsto> fake_info]"

section \<open>Properties\<close>

subsection \<open>Unfolding the effects\<close>

lemmas monad_defs = bind_m_def return_m_def raise_m_def lift_m_def call_m_def log_event_def print_m_def
lemmas call_defs = exists_m_def load_yaml_m_def load_json_m_def write_json_m_def get_launcher_m_def environ_check_def environ_get_def

lemma ascii_upper_names:
  "ascii_upper ''critical'' = ''CRITICAL''" "ascii_upper ''error'' = ''ERROR''"
  "ascii_upper ''warning'' = ''WARNING''" "ascii_upper ''info'' = ''INFO''"
  "ascii_upper ''debug'' = ''DEBUG''" "ascii_upper ''trace'' = ''TRACE''"
  by code_simp+

lemma str_upper_names:
  "utf8_upper ''critical'' = ''CRITICAL''" "utf8_upper ''error'' = ''ERROR''"
  "utf8_upper ''warning'' = ''WARNING''" "utf8_upper ''info'' = ''INFO''"
  "utf8_upper ''debug'' = ''DEBUG''" "utf8_upper ''trace'' = ''TRACE''"
  by code_simp+

lemma accepts_level_iff:
  "accepts_level c s \<longleftrightarrow>
     str_upper c s \<in> {''CRITICAL'', ''ERROR'', ''WARNING'', ''INFO'', ''DEBUG'', ''TRACE''}"
  by (simp add: accepts_level_def level_names_def ascii_upper_names)

lemma level_of_str_Inr: "(\<exists>l. level_of_str (str_upper c s) = Inr l) \<longleftrightarrow> accepts_level c s"
  by (auto simp: accepts_level_iff level_of_str_def)

lemma level_of_str_Inl:
  "\<not> accepts_level c s \<Longrightarrow>
   level_of_str (str_upper c s) = Inl (LauncherError ''InvalidOption'' (str_upper c s @ '' is not a valid log level''))"
  by (auto simp: accepts_level_iff level_of_str_def)

lemma handle_logging_unfold: "handle_logging s w =
   (case level_of_str s of Inl e \<Rightarrow> (Inl e, w)
    | Inr l \<Rightarrow> (Inr (), let w1 = (if root_level w = None then w\<lparr>root_level := Some l\<rparr> else w) in
        if s = ''TRACE'' \<or> s = ''CRITICAL'' then w1 else w1\<lparr>logger_level := (logger_level w1)(''botocore'' \<mapsto> l + 10, ''boto3'' \<mapsto> l + 10)\<rparr>))"
  by (auto simp: handle_logging_def bind_m_def lift_m_def basicConfig_def return_m_def setLevel_def Let_def split: sum.splits)

lemma handle_logging_frame:
  "handle_logging s w = (r, w') \<Longrightarrow>
   files w' = files w \<and> trace w' = trace w \<and> environ w' = environ w \<and> stdout w' = stdout w"
  by (auto simp: handle_logging_unfold Let_def split: sum.splits if_splits)

lemma handle_logging_rejects:
  "\<not> accepts_level c s \<Longrightarrow>
   handle_logging (str_upper c s) w =
     (Inl (LauncherError ''InvalidOption'' (str_upper c s @ '' is not a valid log level'')), w)"
  by (simp add: handle_logging_unfold level_of_str_Inl)

lemma handle_logging_accepts:
  "accepts_level c s \<Longrightarrow> \<exists>w1. handle_logging (str_upper c s) w = (Inr (), w1)"
  using level_of_str_Inr[of c s] by (auto simp: handle_logging_unfold)

lemma do_main_rejects:
  "\<not> accepts_level c (log_level a) \<Longrightarrow>
   do_main c a w = (Inl (LauncherError ''InvalidOption'' (str_upper c (log_level a) @ '' is not a valid log level'')), w)"
  by (simp add: do_main_def bind_m_def handle_logging_rejects)

lemma do_main_create_exists:
  assumes "create a" "accepts_level c (log_level a)" "path_exists c (files w) (info_path a)"
  shows "\<exists>w1. do_main c a w = (Inl (LauncherError ''InputConflict'' ''Target info path already exists!''), w1)
     \<and> files w1 = files w \<and> trace w1 = trace w @ [Exists (info_path a)] \<and> stdout w1 = stdout w"
proof -
  from assms(2) obtain w0 where h: "handle_logging (str_upper c (log_level a)) w = (Inr (), w0)"
    using handle_logging_accepts by blast
  from handle_logging_frame[OF h] assms(1,3) h show ?thesis
    by (simp add: do_main_def monad_defs call_defs)
qed


lemma env_assignments_frame:
  "env_assignments es w = (r, w') \<Longrightarrow>
   files w' = files w \<and> environ w' = environ w \<and> stdout w' = stdout w \<and>
   (\<exists>es'. trace w' = trace w @ map EnvironGet es')"
proof (induction es arbitrary: w r w')
  case Nil
  then show ?case by (simp add: return_m_def)
next
  case (Cons e es)
  show ?case
  proof (cases "environ w e")
    case None
    with Cons.prems have "w' = log_event (EnvironGet e) w"
      by (simp add: monad_defs call_defs getitem_def)
    then show ?thesis
      by (auto simp: log_event_def intro: exI[of _ "[e]"])
  next
    case (Some v)
    obtain r1 w1 where r1: "env_assignments es (log_event (EnvironGet e) w) = (r1, w1)"
      by (cases "env_assignments es (log_event (EnvironGet e) w)")
    from Cons.IH[OF r1] obtain es' where
      f: "files w1 = files w" "environ w1 = environ w" "stdout w1 = stdout w"
         "trace w1 = trace w @ EnvironGet e # map EnvironGet es'"
      by (auto simp: log_event_def)
    from Cons.prems Some r1 have "w' = w1"
      by (auto simp: bind_m_def return_m_def call_m_def environ_get_def getitem_def log_event_def split: sum.splits)
    with f show ?thesis
      by (auto intro: exI[of _ "e # es'"])
  qed
qed

lemma env_prefix_frame:
  assumes run: "env_prefix eo cmd w = (r, w')"
  shows "files w' = files w \<and> environ w' = environ w \<and> stdout w' = stdout w \<and>
   (\<exists>evs. trace w' = trace w @ evs \<and> list_all is_environ_lookup evs \<and>
      (\<forall>s. eo = Some s \<and> CHR ''='' \<in> set s \<longrightarrow> evs = [] \<and> r = Inl option_error))"
proof (cases eo)
  case None
  with run show ?thesis by (auto simp: env_prefix_def return_m_def)
next
  case (Some s)
  show ?thesis
  proof (cases "CHR ''='' \<in> set s")
    case True
    with run Some show ?thesis by (auto simp: env_prefix_def raise_m_def)
  next
    case False
    let ?vs = "str_split CHR '','' s"
    let ?w0 = "log_event (EnvironCheck ?vs) w"
    show ?thesis
    proof (cases "check_keys (environ w) ?vs")
      case (Inl e)
      with Some False have "env_prefix eo cmd w = (Inl e, ?w0)"
        by (simp add: env_prefix_def Let_def bind_m_def environ_check_def call_m_def)
      with run show ?thesis using Some False
        by (auto simp: log_event_def)
    next
      case (Inr u)
      obtain r1 w1 where r1: "env_assignments ?vs ?w0 = (r1, w1)"
        by (cases "env_assignments ?vs ?w0")
      from env_assignments_frame[OF r1] obtain es' where
        f: "files w1 = files w" "environ w1 = environ w" "stdout w1 = stdout w"
           "trace w1 = trace w @ EnvironCheck ?vs # map EnvironGet es'"
        by (auto simp: log_event_def)
      from run Some False Inr r1 have "w' = w1"
        by (auto simp: env_prefix_def Let_def bind_m_def environ_check_def call_m_def return_m_def split: sum.splits)
      with f Some False show ?thesis
        by (auto simp: list_all_iff)
    qed
  qed
qed


lemma environ_lookup_not_write: "is_environ_lookup ev \<Longrightarrow> \<not> is_write ev"
  by (cases ev) simp_all

lemma main_frame:
  "files (snd (main c a w)) = files (snd (do_main c a w)) \<and>
   trace (snd (main c a w)) = trace (snd (do_main c a w)) \<and>
   environ (snd (main c a w)) = environ (snd (do_main c a w))"
  by (auto simp: main_def monad_defs split: prod.splits sum.splits)

lemma run_frame: "snd (run c a w) = snd (main c a w)"
  by (auto simp: run_def split: prod.splits sum.splits option.splits)

lemma do_main_no_create_frame:
  assumes nc: "\<not> create a" and run: "do_main c a w = (r, w')"
  shows "files w' = files w \<and> environ w' = environ w \<and>
         (\<exists>evs. trace w' = trace w @ evs \<and> \<not> list_ex is_write evs)"
proof (cases "accepts_level c (log_level a)")
  case False
  with run show ?thesis by (simp add: do_main_rejects)
next
  case True
  then obtain w0 where h: "handle_logging (str_upper c (log_level a)) w = (Inr (), w0)"
    using handle_logging_accepts by blast
  note f = handle_logging_frame[OF h]
  from run nc h f show ?thesis
    apply (simp add: do_main_def bind_m_def[of "handle_logging _"])
    apply (auto simp: monad_defs call_defs add_extras_def list_ex_iff list_all_iff split: sum.splits prod.splits if_splits dest!: env_prefix_frame)
    apply (blast dest: environ_lookup_not_write)+
    done
qed

lemma emitted_append: "trace w' = trace w @ evs \<Longrightarrow> emitted w w' = evs"
  by (simp add: emitted_def)

lemma run_effects:
  "files (snd (run c a w)) = files (snd (do_main c a w))"
  "trace (snd (run c a w)) = trace (snd (do_main c a w))"
  "emitted w (snd (run c a w)) = emitted w (snd (do_main c a w))"
  by (simp_all add: run_frame main_frame emitted_def)

lemmas fake_defs = fake_collab_def fake_launcher_def failing_launcher_def fake_load_def fake_repr_def
  fake_info_def fake_config_def failing_config_def start_world_def cli_def no_files_def
  config_only_def cluster_up_def default_log_level_def default_config_path_def default_info_path_def

lemmas eval_defs = run_def main_def do_main_def monad_defs call_defs handle_logging_unfold
  level_of_str_def logging_CRITICAL_def logging_ERROR_def logging_WARNING_def logging_INFO_def
  logging_DEBUG_def check_keys_def getitem_def env_prefix_def add_extras_def emitted_def
  accepts_level_iff invokes_def option_error_def option_error_msg_def

lemma str_upper_samples:
  "utf8_upper ''loud'' = ''LOUD''" "utf8_upper ''verbose'' = ''VERBOSE''"
  "utf8_upper ''Debug'' = ''DEBUG''" "utf8_upper ''TRACE'' = ''TRACE''"
  "utf8_upper dotless_info = ''INFO''"
  by code_simp+

subsection \<open>Phases other than create never write\<close>

text \<open>
  C8. In every invocation of a phase other than create, the describe phase among them,
  the file system after the process has ended is the one it started with: the document
  that \<open>load_json\<close> reads at \<open>--info-path\<close> is unchanged, and the orchestrator makes no call
  of \<open>write_json\<close>.
\<close>

theorem describe_never_writes:
  assumes "\<not> create a"
  shows "files (snd (run c a w)) = files w
     \<and> load_json c (files (snd (run c a w))) (info_path a) = load_json c (files w) (info_path a)
     \<and> \<not> list_ex is_write (emitted w (snd (run c a w)))"
proof -
  obtain r w' where run: "do_main c a w = (r, w')"
    by (cases "do_main c a w")
  from do_main_no_create_frame[OF assms run] obtain evs where
    "files w' = files w" "trace w' = trace w @ evs" "\<not> list_ex is_write evs"
    by blast
  then show ?thesis
    by (simp add: run_effects run emitted_append)
qed

theorem describe_never_writes_witness:
  "invokes (cli Describe) Describe \<and> \<not> create (cli Describe)
   \<and> fst (run fake_collab (cli Describe) (start_world cluster_up Map.empty)) = Exit 0
   \<and> stdout (snd (run fake_collab (cli Describe) (start_world cluster_up Map.empty))) = [''{type: fake}'']
   \<and> files (snd (run fake_collab (cli Describe) (start_world cluster_up Map.empty))) = cluster_up
   \<and> \<not> list_ex is_write (emitted (start_world cluster_up Map.empty)
            (snd (run fake_collab (cli Describe) (start_world cluster_up Map.empty))))"
proof -
  have nc: "\<not> create (cli Describe)" by (simp add: cli_def)
  have ex: "fst (run fake_collab (cli Describe) (start_world cluster_up Map.empty)) = Exit 0"
    "stdout (snd (run fake_collab (cli Describe) (start_world cluster_up Map.empty))) = [''{type: fake}'']"
    by (simp_all add: eval_defs fake_defs str_upper_names)
  from describe_never_writes[OF nc, of fake_collab "start_world cluster_up Map.empty"] nc ex
  show ?thesis
    by (simp add: invokes_def cli_def start_world_def)
qed

lemma do_main_create_frame_exists:
  assumes "create a" "path_exists c (files w) (info_path a)"
  shows "isl (fst (do_main c a w)) \<and> files (snd (do_main c a w)) = files w
     \<and> emitted w (snd (do_main c a w)) = (if accepts_level c (log_level a) then [Exists (info_path a)] else [])"
proof (cases "accepts_level c (log_level a)")
  case True
  from do_main_create_exists[OF assms(1) True assms(2)] show ?thesis
    using True by (auto simp: emitted_append)
next
  case False
  then show ?thesis by (simp add: do_main_rejects emitted_def)
qed

subsection \<open>Create refuses an existing info path\<close>

text \<open>
  C1, as amended. In every create invocation where the file at \<open>--info-path\<close> exists, the
  operation fails, the file system is left as it was, and the orchestrator calls neither
  \<open>write_json\<close> nor the launcher's create operation. When \<open>--log-level\<close> is one of the
  accepted names, the failure is the \<open>InputConflict\<close> error; an invalid level is reported
  first, as \<open>InvalidOption\<close>.
\<close>

theorem create_refuses_existing_info:
  assumes "create a" and "path_exists c (files w) (info_path a)"
  shows "(accepts_level c (log_level a) \<longrightarrow>
            fst (do_main c a w) = Inl (LauncherError ''InputConflict'' ''Target info path already exists!''))
     \<and> isl (fst (do_main c a w))
     \<and> files (snd (run c a w)) = files w
     \<and> \<not> list_ex is_write (emitted w (snd (run c a w)))
     \<and> \<not> list_ex is_launch_create (emitted w (snd (run c a w)))"
proof -
  note f = do_main_create_frame_exists[OF assms]
  have "accepts_level c (log_level a) \<Longrightarrow>
      fst (do_main c a w) = Inl (LauncherError ''InputConflict'' ''Target info path already exists!'')"
    using do_main_create_exists[OF assms(1) _ assms(2)] by fastforce
  with f show ?thesis
    by (simp add: run_effects)
qed

theorem create_refuses_existing_info_witness:
  "create (cli Create)
   \<and> path_exists fake_collab (files (start_world cluster_up Map.empty :: (fake_fs, string) world)) (info_path (cli Create))
   \<and> accepts_level fake_collab (log_level (cli Create))
   \<and> fst (do_main fake_collab (cli Create) (start_world cluster_up Map.empty)) =
        Inl (LauncherError ''InputConflict'' ''Target info path already exists!'')
   \<and> files (snd (run fake_collab (cli Create) (start_world cluster_up Map.empty))) = cluster_up"
proof -
  have h: "create (cli Create)"
    "path_exists fake_collab (files (start_world cluster_up Map.empty :: (fake_fs, string) world)) (info_path (cli Create))"
    "accepts_level fake_collab (log_level (cli Create))"
    by (simp_all add: fake_defs accepts_level_iff str_upper_names)
  from create_refuses_existing_info[OF h(1,2)] h show ?thesis
    by (simp add: start_world_def)
qed

text \<open>
  The claim as stated fails for \<open>dcos-launch create -L loud\<close> with the info file in place:
  the error is \<open>InvalidOption\<close>, raised by \<open>_handle_logging\<close> before the existence check.
\<close>

theorem create_invalid_level_counterexample:
  "invokes ((cli Create)\<lparr>log_level := ''loud''\<rparr>) Create
   \<and> path_exists fake_collab (files (start_world cluster_up Map.empty :: (fake_fs, string) world))
        (info_path ((cli Create)\<lparr>log_level := ''loud''\<rparr>))
   \<and> fst (do_main fake_collab ((cli Create)\<lparr>log_level := ''loud''\<rparr>) (start_world cluster_up Map.empty))
        = Inl (LauncherError ''InvalidOption'' ''LOUD is not a valid log level'')"
  by (simp add: eval_defs fake_defs str_upper_samples)

lemma do_main_create_trace:
  assumes cr: "create a" and ok: "accepts_level c (log_level a)"
  shows "\<exists>rest. trace (snd (do_main c a w)) = trace w @ Exists (info_path a) # rest"
proof -
  from ok obtain w0 where h: "handle_logging (str_upper c (log_level a)) w = (Inr (), w0)"
    using handle_logging_accepts by blast
  note f = handle_logging_frame[OF h]
  from cr h f show ?thesis
    apply (simp add: do_main_def bind_m_def[of "handle_logging _"])
    apply (auto simp: monad_defs call_defs split: sum.splits prod.splits)
    done
qed

subsection \<open>The existence check comes first\<close>

text \<open>
  C10, as amended. In every create invocation with an accepted \<open>--log-level\<close>, the first
  call the orchestrator records is the existence check of \<open>--info-path\<close>. Where the path
  exists, the failure is the \<open>InputConflict\<close> error whatever \<open>load_yaml\<close> would do with the
  configuration file (\<open>ly\<close> is any replacement for it), and \<open>load_yaml\<close> is not called.
\<close>

theorem existence_check_precedes_config:
  assumes "create a" and "accepts_level c (log_level a)"
  shows "take 1 (emitted w (snd (do_main c a w))) = [Exists (info_path a)]
     \<and> (path_exists c (files w) (info_path a) \<longrightarrow>
          fst (do_main (c\<lparr>load_yaml := ly\<rparr>) a w) =
            Inl (LauncherError ''InputConflict'' ''Target info path already exists!'')
        \<and> \<not> list_ex is_load_yaml (emitted w (snd (do_main (c\<lparr>load_yaml := ly\<rparr>) a w))))"
proof -
  from do_main_create_trace[OF assms, of w]
  have first: "take 1 (emitted w (snd (do_main c a w))) = [Exists (info_path a)]"
    by (auto simp: emitted_def)
  have "fst (do_main (c\<lparr>load_yaml := ly\<rparr>) a w) =
            Inl (LauncherError ''InputConflict'' ''Target info path already exists!'')
        \<and> \<not> list_ex is_load_yaml (emitted w (snd (do_main (c\<lparr>load_yaml := ly\<rparr>) a w)))"
    if ex: "path_exists c (files w) (info_path a)"
  proof -
    from ex have ex': "path_exists (c\<lparr>load_yaml := ly\<rparr>) (files w) (info_path a)"
      by simp
    from assms(2) have ok': "accepts_level (c\<lparr>load_yaml := ly\<rparr>) (log_level a)"
      by (simp add: accepts_level_def)
    from do_main_create_exists[OF assms(1) ok' ex'] show ?thesis
      by (auto simp: emitted_append)
  qed
  with first show ?thesis by blast
qed

text \<open>
  The witness has the info file in place and no configuration file at \<open>--config-path\<close>.
\<close>

theorem existence_check_precedes_config_witness:
  "create ((cli Create)\<lparr>config_path := ''missing.yaml''\<rparr>)
   \<and> accepts_level fake_collab (log_level ((cli Create)\<lparr>config_path := ''missing.yaml''\<rparr>))
   \<and> path_exists fake_collab (files (start_world cluster_up Map.empty :: (fake_fs, string) world))
        (info_path ((cli Create)\<lparr>config_path := ''missing.yaml''\<rparr>))
   \<and> isl (load_yaml fake_collab cluster_up ''missing.yaml'')
   \<and> fst (do_main fake_collab ((cli Create)\<lparr>config_path := ''missing.yaml''\<rparr>)
        (start_world cluster_up Map.empty)) =
        Inl (LauncherError ''InputConflict'' ''Target info path already exists!'')"
proof -
  let ?a = "(cli Create)\<lparr>config_path := ''missing.yaml''\<rparr>"
  have h: "create ?a" "accepts_level fake_collab (log_level ?a)"
    "path_exists fake_collab (files (start_world cluster_up Map.empty :: (fake_fs, string) world)) (info_path ?a)"
    "isl (load_yaml fake_collab cluster_up ''missing.yaml'')"
    by (simp_all add: fake_defs accepts_level_iff str_upper_names)
  have same: "fake_collab\<lparr>load_yaml := fake_load\<rparr> = fake_collab"
    by (simp add: fake_collab_def)
  from existence_check_precedes_config[where c = fake_collab and a = ?a
      and w = "start_world cluster_up Map.empty" and ly = fake_load, OF h(1,2)] h(3)
  have "fst (do_main (fake_collab\<lparr>load_yaml := fake_load\<rparr>) ?a (start_world cluster_up Map.empty)) =
        Inl (LauncherError ''InputConflict'' ''Target info path already exists!'')"
    by blast
  with same h show ?thesis
    by simp
qed

text \<open>
  The claim as stated fails for \<open>dcos-launch create -L verbose -c missing.yaml\<close> with the
  info file in place: the error is \<open>InvalidOption\<close>.
\<close>

theorem existence_check_invalid_level_counterexample:
  "invokes ((cli Create)\<lparr>log_level := ''verbose'', config_path := ''missing.yaml''\<rparr>) Create
   \<and> path_exists fake_collab (files (start_world cluster_up Map.empty :: (fake_fs, string) world))
        (info_path ((cli Create)\<lparr>log_level := ''verbose'', config_path := ''missing.yaml''\<rparr>))
   \<and> fst (do_main fake_collab ((cli Create)\<lparr>log_level := ''verbose'', config_path := ''missing.yaml''\<rparr>)
        (start_world cluster_up Map.empty))
        = Inl (LauncherError ''InvalidOption'' ''VERBOSE is not a valid log level'')"
  by (simp add: eval_defs fake_defs str_upper_samples)

subsection \<open>A failed create writes nothing\<close>

text \<open>
  C9. In every create invocation that gets as far as the launcher's create operation
  (accepted log level, no file at \<open>--info-path\<close>, a configuration that loads and has the
  required keys, a launcher for its type) and in which that operation raises, the error
  is the one raised, the orchestrator makes no call of \<open>write_json\<close>, the file system is
  left as it was, and so the info path still does not exist.
\<close>

theorem failed_create_writes_nothing:
  assumes "create a" and "accepts_level c (log_level a)"
    and "\<not> path_exists c (files w) (info_path a)"
    and "load_yaml c (files w) (config_path a) = Inr config"
    and "check_keys config [''type'', ''provider_info'',
           ''this_is_a_temporary_config_format_do_not_put_in_production''] = Inr ()"
    and "config ''type'' = Some t" and "config ''provider_info'' = Some p"
    and "get_launcher c t p = Inr launcher"
    and "create_op launcher config = Inl e"
  shows "fst (do_main c a w) = Inl e
     \<and> emitted w (snd (run c a w)) =
         [Exists (info_path a), LoadYaml (config_path a), GetLauncher t p, LaunchCreate config]
     \<and> \<not> list_ex is_write (emitted w (snd (run c a w)))
     \<and> files (snd (run c a w)) = files w
     \<and> \<not> path_exists c (files (snd (run c a w))) (info_path a)"
proof -
  from assms(2) obtain w0 where h: "handle_logging (str_upper c (log_level a)) w = (Inr (), w0)"
    using handle_logging_accepts by blast
  note f = handle_logging_frame[OF h]
  from assms h f have
    "fst (do_main c a w) = Inl e"
    "files (snd (do_main c a w)) = files w"
    "trace (snd (do_main c a w)) = trace w @
       [Exists (info_path a), LoadYaml (config_path a), GetLauncher t p, LaunchCreate config]"
    by (simp_all add: do_main_def monad_defs call_defs getitem_def)
  with assms(3) show ?thesis
    by (simp add: run_effects emitted_append)
qed

theorem failed_create_writes_nothing_witness:
  "create (cli Create) \<and> accepts_level fake_collab (log_level (cli Create))
   \<and> \<not> path_exists fake_collab [''config.yaml'' \<mapsto> failing_config] (info_path (cli Create))
   \<and> load_yaml fake_collab [''config.yaml'' \<mapsto> failing_config] (config_path (cli Create)) = Inr failing_config
   \<and> get_launcher fake_collab ''failing'' ''none'' = Inr failing_launcher
   \<and> create_op failing_launcher failing_config = Inl (LauncherError ''ProvisionError'' ''no capacity'')
   \<and> fst (do_main fake_collab (cli Create) (start_world [''config.yaml'' \<mapsto> failing_config] Map.empty))
        = Inl (LauncherError ''ProvisionError'' ''no capacity'')
   \<and> files (snd (run fake_collab (cli Create) (start_world [''config.yaml'' \<mapsto> failing_config] Map.empty)))
        = [''config.yaml'' \<mapsto> failing_config]"
proof -
  let ?fs = "[''config.yaml'' \<mapsto> failing_config] :: fake_fs"
  let ?w = "start_world ?fs Map.empty :: (fake_fs, string) world"
  have h: "create (cli Create)" "accepts_level fake_collab (log_level (cli Create))"
    "\<not> path_exists fake_collab (files ?w) (info_path (cli Create))"
    "load_yaml fake_collab (files ?w) (config_path (cli Create)) = Inr failing_config"
    "check_keys failing_config [''type'', ''provider_info'',
           ''this_is_a_temporary_config_format_do_not_put_in_production''] = Inr ()"
    "failing_config ''type'' = Some ''failing''" "failing_config ''provider_info'' = Some ''none''"
    "get_launcher fake_collab ''failing'' ''none'' = Inr failing_launcher"
    "create_op failing_launcher failing_config = Inl (LauncherError ''ProvisionError'' ''no capacity'')"
    by (simp_all add: fake_defs accepts_level_iff str_upper_names check_keys_def)
  from failed_create_writes_nothing[OF h] h show ?thesis
    by (simp add: start_world_def)
qed

subsection \<open>The pytest branch\<close>

lemma bind_return [simp]: "bind_m (return_m x) f = f x"
  by (rule ext) (simp add: bind_m_def return_m_def)

lemma bind_raise [simp]: "bind_m (raise_m e) f = raise_m e"
  by (rule ext) (simp add: bind_m_def raise_m_def)

lemma bind_lift_Inr [simp]: "bind_m (lift_m (Inr x)) f = f x"
  by (rule ext) (simp add: bind_m_def lift_m_def)

lemma bind_lift_Inl [simp]: "bind_m (lift_m (Inl e)) f = raise_m e"
  by (rule ext) (simp add: bind_m_def lift_m_def raise_m_def)

lemma bind_call_Inr [simp]: "bind_m (call_m ev (Inr x)) f w = f x (log_event ev w)"
  by (simp add: bind_m_def call_m_def)

lemma bind_call_Inl [simp]: "bind_m (call_m ev (Inl e)) f w = (Inl e, log_event ev w)"
  by (simp add: bind_m_def call_m_def)

lemma bind_result: "m w = (Inr x, w') \<Longrightarrow> bind_m m f w = f x w'"
  by (simp add: bind_m_def)

lemma str_split_not_Nil: "str_split sep s \<noteq> []"
  by (induction s) (auto split: list.splits)

lemma str_join_append:
  "xs \<noteq> [] \<Longrightarrow> ys \<noteq> [] \<Longrightarrow> str_join sep (xs @ ys) = str_join sep xs @ sep @ str_join sep ys"
proof (induction sep xs rule: str_join.induct)
  case (1 sep)
  then show ?case by simp
next
  case (2 sep x)
  then show ?case by (cases ys) simp_all
next
  case (3 sep x y ys')
  then show ?case by simp
qed

lemma check_keys_Inr: "check_keys d ks = Inr u \<longleftrightarrow> (\<forall>k\<in>set ks. d k \<noteq> None)"
  by (auto simp: check_keys_def Let_def filter_empty_conv)

lemma check_keys_Inl:
  "k \<in> set ks \<Longrightarrow> d k = None \<Longrightarrow>
   check_keys d ks = Inl (LauncherError ''MissingKeys'' (str_join '','' (filter (\<lambda>k. d k = None) ks)))"
  by (auto simp: check_keys_def Let_def filter_empty_conv)

lemma env_assignments_ok:
  "\<forall>e\<in>set es. environ w e \<noteq> None \<Longrightarrow>
   env_assignments es w =
     (Inr (map (\<lambda>e. e @ ''='' @ the (environ w e)) es), w\<lparr>trace := trace w @ map EnvironGet es\<rparr>)"
proof (induction es arbitrary: w)
  case Nil
  then show ?case by (simp add: return_m_def)
next
  case (Cons e es)
  from Cons.prems obtain v where v: "environ w e = Some v" by auto
  have "\<forall>x\<in>set es. environ (log_event (EnvironGet e) w) x \<noteq> None"
    using Cons.prems by (simp add: log_event_def)
  from Cons.IH[OF this] v show ?case
    by (simp add: bind_m_def return_m_def environ_get_def call_m_def getitem_def log_event_def)
qed

lemma env_prefix_ok:
  assumes "\<forall>s. eo = Some s \<longrightarrow> CHR ''='' \<notin> set s"
    and "vs = (case eo of None \<Rightarrow> [] | Some s \<Rightarrow> str_split CHR '','' s)"
    and "check_keys (environ w) vs = Inr ()"
  shows "env_prefix eo cmd w =
     (Inr (str_join '' '' (map (\<lambda>e. e @ ''='' @ the (environ w e)) vs @ [cmd])),
      w\<lparr>trace := trace w @ (case eo of None \<Rightarrow> [] | Some s \<Rightarrow> EnvironCheck vs # map EnvironGet vs)\<rparr>)"
proof (cases eo)
  case None
  with assms show ?thesis by (simp add: env_prefix_def return_m_def)
next
  case (Some s)
  with assms have vs: "vs = str_split CHR '','' s" "vs \<noteq> []" "CHR ''='' \<notin> set s"
    by (simp_all add: str_split_not_Nil)
  from assms(3) have "\<forall>e\<in>set vs. environ (log_event (EnvironCheck vs) w) e \<noteq> None"
    by (simp add: check_keys_Inr log_event_def)
  from env_assignments_ok[OF this] Some vs assms(3) show ?thesis
    by (simp add: env_prefix_def Let_def bind_m_def return_m_def environ_check_def call_m_def
        log_event_def str_join_append)
qed

lemma add_extras_join:
  "xs \<noteq> [] \<Longrightarrow> add_extras extras (str_join '' '' xs) = str_join '' '' (xs @ extras)"
  by (cases extras) (simp_all add: add_extras_def str_join_append)

lemma do_main_pytest:
  assumes "invokes a Pytest" and "accepts_level c (log_level a)"
    and "load_json c (files w) (info_path a) = Inr info"
    and "check_keys info [''type'', ''provider''] = Inr ()"
    and "info ''type'' = Some t" and "info ''provider'' = Some p"
    and "get_launcher c t p = Inr launcher"
  shows "\<exists>w1. files w1 = files w \<and> environ w1 = environ w \<and> stdout w1 = stdout w
     \<and> trace w1 = trace w @ [LoadJson (info_path a), GetLauncher t p]
     \<and> do_main c a w =
         bind_m (env_prefix (env a) ''py.test'') (\<lambda>test_cmd.
         bind_m (call_m (LaunchTest info (add_extras (pytest_extras a) test_cmd))
                   (test_op launcher info (add_extras (pytest_extras a) test_cmd))) (\<lambda>_.
         return_m (Some 0))) w1"
proof -
  from assms(2) obtain w0 where h: "handle_logging (str_upper c (log_level a)) w = (Inr (), w0)"
    using handle_logging_accepts by blast
  note f = handle_logging_frame[OF h]
  let ?w1 = "w0\<lparr>trace := trace w @ [LoadJson (info_path a), GetLauncher t p]\<rparr>"
  from assms(1) have flags: "\<not> create a" "\<not> wait a" "\<not> describe a" "pytest a"
    by (simp_all add: invokes_def)
  have lj: "load_json_m c (info_path a) w0 = call_m (LoadJson (info_path a)) (Inr info) w0"
    using assms(3) f by (simp add: load_json_m_def)
  have "do_main c a w =
         bind_m (env_prefix (env a) ''py.test'') (\<lambda>test_cmd.
         bind_m (call_m (LaunchTest info (add_extras (pytest_extras a) test_cmd))
                   (test_op launcher info (add_extras (pytest_extras a) test_cmd))) (\<lambda>_.
         return_m (Some 0))) ?w1"
    unfolding do_main_def
      bind_result[where m = "handle_logging (str_upper c (log_level a))" and w = w, OF h]
    using flags assms(4-7) f
    by (simp add: bind_m_def[of "load_json_m c (info_path a)"] lj call_m_def get_launcher_m_def getitem_def log_event_def)
  with f show ?thesis
    by (intro exI[of _ ?w1]) simp
qed

lemma do_main_pytest_ok:
  assumes "invokes a Pytest" and "accepts_level c (log_level a)"
    and "load_json c (files w) (info_path a) = Inr info"
    and "check_keys info [''type'', ''provider''] = Inr ()"
    and "info ''type'' = Some t" and "info ''provider'' = Some p"
    and "get_launcher c t p = Inr launcher"
    and "\<forall>s. env a = Some s \<longrightarrow> CHR ''='' \<notin> set s"
    and "var_list = (case env a of None \<Rightarrow> [] | Some s \<Rightarrow> str_split CHR '','' s)"
    and "check_keys (environ w) var_list = Inr ()"
    and "test_cmd = str_join '' '' (map (\<lambda>e. e @ ''='' @ the (environ w e)) var_list @ [''py.test''] @ pytest_extras a)"
  shows "fst (do_main c a w) = (case test_op launcher info test_cmd of Inl ex \<Rightarrow> Inl ex | Inr status \<Rightarrow> Inr (Some 0))
     \<and> files (snd (do_main c a w)) = files w
     \<and> trace (snd (do_main c a w)) = trace w @ [LoadJson (info_path a), GetLauncher t p]
           @ (case env a of None \<Rightarrow> [] | Some s \<Rightarrow> EnvironCheck var_list # map EnvironGet var_list)
           @ [LaunchTest info test_cmd]"
proof -
  from do_main_pytest[OF assms(1-7)] obtain w1 where
    f: "files w1 = files w" "environ w1 = environ w"
       "trace w1 = trace w @ [LoadJson (info_path a), GetLauncher t p]" and
    d: "do_main c a w =
         bind_m (env_prefix (env a) ''py.test'') (\<lambda>test_cmd.
         bind_m (call_m (LaunchTest info (add_extras (pytest_extras a) test_cmd))
                   (test_op launcher info (add_extras (pytest_extras a) test_cmd))) (\<lambda>_.
         return_m (Some 0))) w1"
    by blast
  from assms(10) f have ck: "check_keys (environ w1) var_list = Inr ()" by simp
  have p: "env_prefix (env a) ''py.test'' w1 =
     (Inr (str_join '' '' (map (\<lambda>e. e @ ''='' @ the (environ w e)) var_list @ [''py.test''])),
      w1\<lparr>trace := trace w @ [LoadJson (info_path a), GetLauncher t p]
          @ (case env a of None \<Rightarrow> [] | Some s \<Rightarrow> EnvironCheck var_list # map EnvironGet var_list)\<rparr>)"
    using env_prefix_ok[OF assms(8,9) ck, of "''py.test''"] f by simp
  have cmd: "add_extras (pytest_extras a)
        (str_join '' '' (map (\<lambda>e. e @ ''='' @ the (environ w e)) var_list @ [''py.test''])) = test_cmd"
    by (simp add: add_extras_join assms(11))
  show ?thesis
    unfolding d bind_result[where m = "env_prefix (env a) ''py.test''" and w = w1, OF p] cmd
    by (cases "test_op launcher info test_cmd") (simp_all add: log_event_def return_m_def f)
qed

subsection \<open>The command handed to the test operation\<close>

text \<open>
  C7. In every pytest invocation that passes validation (accepted log level, a cluster
  info document that loads and has its keys, a launcher for it, an \<open>--env\<close> value without
  \<open>=\<close>, every listed variable set in the environment), the launcher's test operation is
  called once, as the last call, and the command handed to it is the space-joined list of
  one \<open>KEY=value\<close> assignment per \<open>--env\<close> variable, with the value from the process
  environment, then \<open>py.test\<close>, then the trailing arguments as they are.
\<close>

theorem pytest_test_command:
  assumes "invokes a Pytest" and "accepts_level c (log_level a)"
    and "load_json c (files w) (info_path a) = Inr info"
    and "check_keys info [''type'', ''provider''] = Inr ()"
    and "info ''type'' = Some t" and "info ''provider'' = Some p"
    and "get_launcher c t p = Inr launcher"
    and "\<forall>s. env a = Some s \<longrightarrow> CHR ''='' \<notin> set s"
    and "var_list = (case env a of None \<Rightarrow> [] | Some s \<Rightarrow> str_split CHR '','' s)"
    and "check_keys (environ w) var_list = Inr ()"
    and "test_cmd = str_join '' ''
           (map (\<lambda>e. e @ ''='' @ the (environ w e)) var_list @ [''py.test''] @ pytest_extras a)"
  shows "(\<forall>e\<in>set var_list. environ w e \<noteq> None)
     \<and> emitted w (snd (do_main c a w)) =
          [LoadJson (info_path a), GetLauncher t p]
          @ (case env a of None \<Rightarrow> [] | Some s \<Rightarrow> EnvironCheck var_list # map EnvironGet var_list)
          @ [LaunchTest info test_cmd]"
proof -
  from assms(10) have "\<forall>e\<in>set var_list. environ w e \<noteq> None"
    by (simp add: check_keys_Inr)
  with do_main_pytest_ok[OF assms] show ?thesis
    by (simp add: emitted_append)
qed

theorem pytest_test_command_witness:
  "invokes ((cli Pytest)\<lparr>env := Some ''FOO,BAR'', pytest_extras := [''-x'', ''-k foo'']\<rparr>) Pytest
   \<and> check_keys [''FOO'' \<mapsto> ''1'', ''BAR'' \<mapsto> ''two'', ''HOME'' \<mapsto> ''/root''] (str_split CHR '','' ''FOO,BAR'') = Inr ()
   \<and> emitted (start_world cluster_up [''FOO'' \<mapsto> ''1'', ''BAR'' \<mapsto> ''two'', ''HOME'' \<mapsto> ''/root''])
        (snd (do_main fake_collab ((cli Pytest)\<lparr>env := Some ''FOO,BAR'', pytest_extras := [''-x'', ''-k foo'']\<rparr>)
           (start_world cluster_up [''FOO'' \<mapsto> ''1'', ''BAR'' \<mapsto> ''two'', ''HOME'' \<mapsto> ''/root''])))
     = [LoadJson ''cluster_info.json'', GetLauncher ''fake'' ''local'',
        EnvironCheck [''FOO'', ''BAR''], EnvironGet ''FOO'', EnvironGet ''BAR'',
        LaunchTest fake_info ''FOO=1 BAR=two py.test -x -k foo'']"
proof -
  let ?a = "(cli Pytest)\<lparr>env := Some ''FOO,BAR'', pytest_extras := [''-x'', ''-k foo'']\<rparr>"
  let ?env = "[''FOO'' \<mapsto> ''1'', ''BAR'' \<mapsto> ''two'', ''HOME'' \<mapsto> ''/root'']"
  let ?w = "start_world cluster_up ?env :: (fake_fs, string) world"
  have h: "invokes ?a Pytest" "accepts_level fake_collab (log_level ?a)"
    "load_json fake_collab (files ?w) (info_path ?a) = Inr fake_info"
    "check_keys fake_info [''type'', ''provider''] = Inr ()"
    "fake_info ''type'' = Some ''fake''" "fake_info ''provider'' = Some ''local''"
    "get_launcher fake_collab ''fake'' ''local'' = Inr fake_launcher"
    "\<forall>s. env ?a = Some s \<longrightarrow> CHR ''='' \<notin> set s"
    "[''FOO'', ''BAR''] = (case env ?a of None \<Rightarrow> [] | Some s \<Rightarrow> str_split CHR '','' s)"
    "check_keys (environ ?w) [''FOO'', ''BAR''] = Inr ()"
    "''FOO=1 BAR=two py.test -x -k foo'' = str_join '' ''
           (map (\<lambda>e. e @ ''='' @ the (environ ?w e)) [''FOO'', ''BAR''] @ [''py.test''] @ pytest_extras ?a)"
    by (simp_all add: fake_defs invokes_def accepts_level_iff str_upper_names check_keys_def)
  from pytest_test_command[OF h] h(1,10) show ?thesis
    by (simp add: cli_def default_info_path_def start_world_def)
qed

subsection \<open>Exit codes\<close>

lemma do_main_returns:
  assumes run: "do_main c a w = (Inr r, w')"
  shows "r = Some 0 \<or> r = None"
proof (cases "accepts_level c (log_level a)")
  case False
  with run show ?thesis by (simp add: do_main_rejects)
next
  case True
  then obtain w0 where h: "handle_logging (str_upper c (log_level a)) w = (Inr (), w0)"
    using handle_logging_accepts by blast
  from run show ?thesis
    unfolding do_main_def bind_result[where m = "handle_logging (str_upper c (log_level a))" and w = w, OF h]
    by (auto simp: bind_m_def return_m_def raise_m_def split: sum.splits prod.splits if_splits)
qed


lemma run_outcome:
  "fst (run c a w) =
     (case fst (do_main c a w) of
        Inr r \<Rightarrow> Exit 0
      | Inl ex \<Rightarrow> if caught ex then Exit 1 else Uncaught ex)"
proof (cases "do_main c a w")
  case (Pair r w')
  show ?thesis
  proof (cases r)
    case (Inl ex)
    with Pair show ?thesis
      by (cases "caught ex") (simp_all add: run_def main_def bind_m_def print_m_def return_m_def)
  next
    case (Inr v)
    with Pair do_main_returns[of c a w v w'] show ?thesis
      by (auto simp: run_def main_def)
  qed
qed




subsection \<open>Reporting of errors\<close>




subsection \<open>Validation of \<open>--env\<close>\<close>

lemma env_prefix_equals:
  "CHR ''='' \<in> set s \<Longrightarrow> env_prefix (Some s) cmd w = (Inl option_error, w)"
  by (simp add: env_prefix_def raise_m_def)

lemma env_prefix_unset:
  assumes "CHR ''='' \<notin> set s" and "e \<in> set (str_split CHR '','' s)" and "environ w e = None"
  shows "env_prefix (Some s) cmd w =
     (Inl (LauncherError ''MissingKeys''
            (str_join '','' (filter (\<lambda>k. environ w k = None) (str_split CHR '','' s)))),
      log_event (EnvironCheck (str_split CHR '','' s)) w)"
proof -
  have "check_keys (environ w) (str_split CHR '','' s) =
      Inl (LauncherError ''MissingKeys''
            (str_join '','' (filter (\<lambda>k. environ w k = None) (str_split CHR '','' s))))"
    using assms(2,3) by (rule check_keys_Inl)
  with assms(1) show ?thesis
    by (simp add: env_prefix_def Let_def environ_check_def bind_m_def call_m_def)
qed

text \<open>
  A pytest invocation either fails before the pytest branch, having recorded at most the
  loading of the cluster info and the resolution of the launcher, or reaches the branch.
\<close>

lemma do_main_pytest_cases:
  fixes c :: "('fs, 'v) collab"
  assumes inv: "invokes a Pytest"
  obtains (early) pre where
      "isl (fst (do_main c a w))" "trace (snd (do_main c a w)) = trace w @ pre"
      "\<not> list_ex is_environ_lookup pre" "\<not> list_ex is_launch_test pre"
  | (branch) w1 info t p and launcher :: "'v launcher" where
      "files w1 = files w" "environ w1 = environ w"
      "trace w1 = trace w @ [LoadJson (info_path a), GetLauncher t p]"
      "do_main c a w =
         bind_m (env_prefix (env a) ''py.test'') (\<lambda>test_cmd.
         bind_m (call_m (LaunchTest info (add_extras (pytest_extras a) test_cmd))
                   (test_op launcher info (add_extras (pytest_extras a) test_cmd))) (\<lambda>_.
         return_m (Some 0))) w1"
proof (cases "accepts_level c (log_level a)")
  case False
  then have "isl (fst (do_main c a w))" "trace (snd (do_main c a w)) = trace w @ []"
    by (simp_all add: do_main_rejects)
  then show ?thesis by (rule early) simp_all
next
  case True
  then obtain w0 where h: "handle_logging (str_upper c (log_level a)) w = (Inr (), w0)"
    using handle_logging_accepts by blast
  note f = handle_logging_frame[OF h]
  from inv have flags: "\<not> create a" "\<not> wait a" "\<not> describe a" "pytest a"
    by (simp_all add: invokes_def)
  have lj_m: "bind_m (load_json_m c (info_path a)) g w0 =
      (case load_json c (files w) (info_path a) of
         Inl ex \<Rightarrow> (Inl ex, log_event (LoadJson (info_path a)) w0)
       | Inr info \<Rightarrow> g info (log_event (LoadJson (info_path a)) w0))" for g :: "'v doc \<Rightarrow> ('fs, 'v, int option) prog"
    using f by (simp add: bind_m_def load_json_m_def call_m_def split: sum.splits)
  note unfold = do_main_def
    bind_result[where m = "handle_logging (str_upper c (log_level a))" and w = w, OF h]
  show ?thesis
  proof (cases "load_json c (files w) (info_path a)")
    case (Inl ex)
    with flags f have "isl (fst (do_main c a w))"
      "trace (snd (do_main c a w)) = trace w @ [LoadJson (info_path a)]"
      unfolding unfold by (simp_all add: lj_m log_event_def)
    then show ?thesis by (rule early) simp_all
  next
    case (Inr info)
    note lj = this
    show ?thesis
    proof (cases "check_keys info [''type'', ''provider'']")
      case (Inl ex)
      with flags f lj have "isl (fst (do_main c a w))"
        "trace (snd (do_main c a w)) = trace w @ [LoadJson (info_path a)]"
        unfolding unfold by (simp_all add: lj_m log_event_def raise_m_def)
      then show ?thesis by (rule early) simp_all
    next
      case (Inr u)
      then have ck: "check_keys info [''type'', ''provider''] = Inr ()" by simp
      then obtain t p where tp: "info ''type'' = Some t" "info ''provider'' = Some p"
        by (auto simp: check_keys_Inr)
      show ?thesis
      proof (cases "get_launcher c t p")
        case (Inl ex)
        with flags f lj ck tp have "isl (fst (do_main c a w))"
          "trace (snd (do_main c a w)) = trace w @ [LoadJson (info_path a), GetLauncher t p]"
          unfolding unfold
          by (simp_all add: lj_m get_launcher_m_def getitem_def log_event_def)
        then show ?thesis by (rule early) simp_all
      next
        case (Inr launcher)
        from do_main_pytest[OF inv True lj ck tp Inr] obtain w1 where
          "files w1 = files w" "environ w1 = environ w"
          "trace w1 = trace w @ [LoadJson (info_path a), GetLauncher t p]"
          "do_main c a w =
             bind_m (env_prefix (env a) ''py.test'') (\<lambda>test_cmd.
             bind_m (call_m (LaunchTest info (add_extras (pytest_extras a) test_cmd))
                       (test_op launcher info (add_extras (pytest_extras a) test_cmd))) (\<lambda>_.
             return_m (Some 0))) w1"
          by blast
        then show ?thesis by (rule branch)
      qed
    qed
  qed
qed

lemma environ_get_is_lookup: "is_environ_get ev \<Longrightarrow> is_environ_lookup ev"
  by (cases ev) simp_all

lemma no_lookup_no_get: "\<not> list_ex is_environ_lookup evs \<Longrightarrow> \<not> list_ex is_environ_get evs"
  by (auto simp: list_ex_iff dest: environ_get_is_lookup)

subsection \<open>An assignment in \<open>--env\<close> is refused\<close>

text \<open>
  C5, as amended. In every pytest invocation whose \<open>--env\<close> value contains \<open>=\<close>, the
  operation fails, the orchestrator makes no lookup of the process environment (neither
  the membership test of \<open>check_keys\<close> nor \<open>os.environ[e]\<close>) and does not call the
  launcher's test operation. Where the invocation reaches the pytest branch (accepted log
  level, a cluster info document that loads and has its keys, a launcher for it), the
  failure is the \<open>OptionError\<close> error.
\<close>

theorem env_with_equals_rejected:
  assumes "invokes a Pytest" and "env a = Some s" and "CHR ''='' \<in> set s"
  shows "isl (fst (do_main c a w))
     \<and> \<not> list_ex is_environ_lookup (emitted w (snd (run c a w)))
     \<and> \<not> list_ex is_launch_test (emitted w (snd (run c a w)))
     \<and> (accepts_level c (log_level a)
          \<and> load_json c (files w) (info_path a) = Inr info
          \<and> check_keys info [''type'', ''provider''] = Inr ()
          \<and> info ''type'' = Some t \<and> info ''provider'' = Some p
          \<and> get_launcher c t p = Inr launcher
        \<longrightarrow> fst (do_main c a w) = Inl (LauncherError ''OptionError'' option_error_msg))"
proof -
  have general: "isl (fst (do_main c a w))
     \<and> \<not> list_ex is_environ_lookup (emitted w (snd (do_main c a w)))
     \<and> \<not> list_ex is_launch_test (emitted w (snd (do_main c a w)))"
    using assms(1)
  proof (cases rule: do_main_pytest_cases[where c = c and w = w])
    case (early pre)
    then show ?thesis by (simp add: emitted_append)
  next
    case (branch w1 info' t' p' launcher')
    from branch(4) assms(2,3) have "do_main c a w = (Inl option_error, w1)"
      by (simp add: env_prefix_equals bind_m_def)
    with branch(3) show ?thesis by (simp add: emitted_append)
  qed
  have "fst (do_main c a w) = Inl (LauncherError ''OptionError'' option_error_msg)"
    if h: "accepts_level c (log_level a)"
      "load_json c (files w) (info_path a) = Inr info"
      "check_keys info [''type'', ''provider''] = Inr ()"
      "info ''type'' = Some t" "info ''provider'' = Some p"
      "get_launcher c t p = Inr launcher"
  proof -
    from do_main_pytest[OF assms(1) h] obtain w1 where
      "do_main c a w =
         bind_m (env_prefix (env a) ''py.test'') (\<lambda>test_cmd.
         bind_m (call_m (LaunchTest info (add_extras (pytest_extras a) test_cmd))
                   (test_op launcher info (add_extras (pytest_extras a) test_cmd))) (\<lambda>_.
         return_m (Some 0))) w1"
      by blast
    with assms(2,3) show ?thesis
      by (simp add: env_prefix_equals bind_m_def option_error_def)
  qed
  with general show ?thesis
    by (simp add: run_effects)
qed

theorem env_with_equals_rejected_witness:
  "invokes ((cli Pytest)\<lparr>env := Some ''FOO=1''\<rparr>) Pytest
   \<and> CHR ''='' \<in> set ''FOO=1''
   \<and> load_json fake_collab cluster_up (info_path ((cli Pytest)\<lparr>env := Some ''FOO=1''\<rparr>)) = Inr fake_info
   \<and> fst (do_main fake_collab ((cli Pytest)\<lparr>env := Some ''FOO=1''\<rparr>)
         (start_world cluster_up Map.empty)) = Inl (LauncherError ''OptionError'' option_error_msg)
   \<and> \<not> list_ex is_environ_lookup (emitted (start_world cluster_up Map.empty)
         (snd (run fake_collab ((cli Pytest)\<lparr>env := Some ''FOO=1''\<rparr>) (start_world cluster_up Map.empty))))"
proof -
  let ?a = "(cli Pytest)\<lparr>env := Some ''FOO=1''\<rparr>"
  let ?w = "start_world cluster_up Map.empty :: (fake_fs, string) world"
  have inv: "invokes ?a Pytest" "env ?a = Some ''FOO=1''" "CHR ''='' \<in> set ''FOO=1''"
    by (simp_all add: invokes_def cli_def)
  have pre: "accepts_level fake_collab (log_level ?a)"
    "load_json fake_collab (files ?w) (info_path ?a) = Inr fake_info"
    "check_keys fake_info [''type'', ''provider''] = Inr ()"
    "fake_info ''type'' = Some ''fake''" "fake_info ''provider'' = Some ''local''"
    "get_launcher fake_collab ''fake'' ''local'' = Inr fake_launcher"
    by (simp_all add: fake_defs accepts_level_iff str_upper_names check_keys_def)
  from env_with_equals_rejected[OF inv, where c = fake_collab and w = ?w and info = fake_info
      and t = "''fake''" and p = "''local''" and launcher = fake_launcher] pre inv
  show ?thesis
    by (simp add: start_world_def)
qed

text \<open>
  The claim as stated fails for \<open>dcos-launch pytest -L loud -e FOO=1\<close>: the error is
  \<open>InvalidOption\<close>, not \<open>OptionError\<close>. The same holds when the cluster info cannot be
  loaded or validated or has no launcher: those errors come before the \<open>--env\<close> check.
\<close>

theorem env_with_equals_counterexample:
  "invokes ((cli Pytest)\<lparr>log_level := ''loud'', env := Some ''FOO=1''\<rparr>) Pytest
   \<and> CHR ''='' \<in> set ''FOO=1''
   \<and> fst (do_main fake_collab ((cli Pytest)\<lparr>log_level := ''loud'', env := Some ''FOO=1''\<rparr>)
        (start_world cluster_up Map.empty))
      = Inl (LauncherError ''InvalidOption'' ''LOUD is not a valid log level'')"
  by (simp add: eval_defs fake_defs str_upper_samples)

subsection \<open>An unset variable fails validation\<close>

text \<open>
  C6, as amended. In every pytest invocation whose \<open>--env\<close> list names a variable that
  is not set in the process environment, the operation fails, no \<open>os.environ[e]\<close> lookup
  is made (the assignment prefix of the test command is not built) and the launcher's
  test operation is not called. Where the \<open>--env\<close> value contains no \<open>=\<close> and the
  invocation reaches the pytest branch, the failure is the \<open>MissingKeys\<close> error of
  \<open>check_keys\<close>, naming every unset variable, and the membership test on the environment
  is the last call recorded.
\<close>

theorem unset_env_var_fails_validation:
  assumes "invokes a Pytest" and "env a = Some s"
    and "e \<in> set (str_split CHR '','' s)" and "environ w e = None"
  shows "isl (fst (do_main c a w))
     \<and> \<not> list_ex is_environ_get (emitted w (snd (run c a w)))
     \<and> \<not> list_ex is_launch_test (emitted w (snd (run c a w)))
     \<and> (CHR ''='' \<notin> set s
          \<and> accepts_level c (log_level a)
          \<and> load_json c (files w) (info_path a) = Inr info
          \<and> check_keys info [''type'', ''provider''] = Inr ()
          \<and> info ''type'' = Some t \<and> info ''provider'' = Some p
          \<and> get_launcher c t p = Inr launcher
        \<longrightarrow> fst (do_main c a w) =
              Inl (LauncherError ''MissingKeys''
                (str_join '','' (filter (\<lambda>k. environ w k = None) (str_split CHR '','' s))))
          \<and> emitted w (snd (run c a w)) =
              [LoadJson (info_path a), GetLauncher t p, EnvironCheck (str_split CHR '','' s)])"
proof -
  have fail: "\<exists>ex w' evs. env_prefix (env a) ''py.test'' w1 = (Inl ex, w')
      \<and> trace w' = trace w1 @ evs
      \<and> \<not> list_ex is_environ_get evs \<and> \<not> list_ex is_launch_test evs
      \<and> (CHR ''='' \<notin> set s \<longrightarrow>
            ex = LauncherError ''MissingKeys''
                (str_join '','' (filter (\<lambda>k. environ w k = None) (str_split CHR '','' s)))
            \<and> evs = [EnvironCheck (str_split CHR '','' s)])"
    if "environ w1 = environ w" for w1 :: "('a, 'b) world"
  proof (cases "CHR ''='' \<in> set s")
    case True
    with assms(2) have "env_prefix (env a) ''py.test'' w1 = (Inl option_error, w1)"
      by (simp add: env_prefix_equals)
    with True show ?thesis by simp
  next
    case False
    from assms(4) that have "environ w1 e = None" by simp
    from env_prefix_unset[OF False assms(3) this, of "''py.test''"] assms(2) that
    have "env_prefix (env a) ''py.test'' w1 =
        (Inl (LauncherError ''MissingKeys''
            (str_join '','' (filter (\<lambda>k. environ w k = None) (str_split CHR '','' s)))),
         w1\<lparr>trace := trace w1 @ [EnvironCheck (str_split CHR '','' s)]\<rparr>)"
      by (simp add: log_event_def)
    then show ?thesis by simp
  qed
  have general: "isl (fst (do_main c a w))
     \<and> \<not> list_ex is_environ_get (emitted w (snd (do_main c a w)))
     \<and> \<not> list_ex is_launch_test (emitted w (snd (do_main c a w)))"
    using assms(1)
  proof (cases rule: do_main_pytest_cases[where c = c and w = w])
    case (early pre)
    then show ?thesis by (simp add: emitted_append no_lookup_no_get)
  next
    case (branch w1 info' t' p' launcher')
    from fail[OF branch(2)] obtain ex w' evs where
      p: "env_prefix (env a) ''py.test'' w1 = (Inl ex, w')" "trace w' = trace w1 @ evs"
      and evs: "\<not> list_ex is_environ_get evs" "\<not> list_ex is_launch_test evs"
      by blast
    from branch(4) p have "do_main c a w = (Inl ex, w')"
      by (simp add: bind_m_def)
    with branch(3) p evs show ?thesis by (simp add: emitted_append)
  qed
  have "fst (do_main c a w) =
              Inl (LauncherError ''MissingKeys''
                (str_join '','' (filter (\<lambda>k. environ w k = None) (str_split CHR '','' s))))
          \<and> emitted w (snd (do_main c a w)) =
              [LoadJson (info_path a), GetLauncher t p, EnvironCheck (str_split CHR '','' s)]"
    if ne: "CHR ''='' \<notin> set s" and h: "accepts_level c (log_level a)"
      "load_json c (files w) (info_path a) = Inr info"
      "check_keys info [''type'', ''provider''] = Inr ()"
      "info ''type'' = Some t" "info ''provider'' = Some p"
      "get_launcher c t p = Inr launcher"
  proof -
    from do_main_pytest[OF assms(1) h] obtain w1 where
      f: "environ w1 = environ w" "trace w1 = trace w @ [LoadJson (info_path a), GetLauncher t p]" and
      d: "do_main c a w =
         bind_m (env_prefix (env a) ''py.test'') (\<lambda>test_cmd.
         bind_m (call_m (LaunchTest info (add_extras (pytest_extras a) test_cmd))
                   (test_op launcher info (add_extras (pytest_extras a) test_cmd))) (\<lambda>_.
         return_m (Some 0))) w1"
      by blast
    from fail[OF f(1)] ne obtain w' where
      "env_prefix (env a) ''py.test'' w1 =
        (Inl (LauncherError ''MissingKeys''
            (str_join '','' (filter (\<lambda>k. environ w k = None) (str_split CHR '','' s)))), w')"
      "trace w' = trace w1 @ [EnvironCheck (str_split CHR '','' s)]"
      by auto
    with d f show ?thesis
      by (simp add: bind_m_def emitted_append)
  qed
  with general show ?thesis
    by (simp add: run_effects)
qed

theorem unset_env_var_fails_validation_witness:
  "invokes ((cli Pytest)\<lparr>env := Some ''FOO,BAR''\<rparr>) Pytest
   \<and> ''FOO'' \<in> set (str_split CHR '','' ''FOO,BAR'')
   \<and> environ (start_world cluster_up [''BAR'' \<mapsto> ''2''] :: (fake_fs, string) world) ''FOO'' = None
   \<and> fst (do_main fake_collab ((cli Pytest)\<lparr>env := Some ''FOO,BAR''\<rparr>)
         (start_world cluster_up [''BAR'' \<mapsto> ''2''])) = Inl (LauncherError ''MissingKeys'' ''FOO'')
   \<and> emitted (start_world cluster_up [''BAR'' \<mapsto> ''2''])
         (snd (run fake_collab ((cli Pytest)\<lparr>env := Some ''FOO,BAR''\<rparr>) (start_world cluster_up [''BAR'' \<mapsto> ''2''])))
      = [LoadJson ''cluster_info.json'', GetLauncher ''fake'' ''local'', EnvironCheck [''FOO'', ''BAR'']]"
proof -
  let ?a = "(cli Pytest)\<lparr>env := Some ''FOO,BAR''\<rparr>"
  let ?w = "start_world cluster_up [''BAR'' \<mapsto> ''2''] :: (fake_fs, string) world"
  have inv: "invokes ?a Pytest" "env ?a = Some ''FOO,BAR''"
    "''FOO'' \<in> set (str_split CHR '','' ''FOO,BAR'')" "environ ?w ''FOO'' = None"
    by (simp_all add: invokes_def cli_def start_world_def)
  have pre: "CHR ''='' \<notin> set ''FOO,BAR''" "accepts_level fake_collab (log_level ?a)"
    "load_json fake_collab (files ?w) (info_path ?a) = Inr fake_info"
    "check_keys fake_info [''type'', ''provider''] = Inr ()"
    "fake_info ''type'' = Some ''fake''" "fake_info ''provider'' = Some ''local''"
    "get_launcher fake_collab ''fake'' ''local'' = Inr fake_launcher"
    by (simp_all add: fake_defs accepts_level_iff str_upper_names check_keys_def)
  have msg: "str_join '','' (filter (\<lambda>k. environ ?w k = None) (str_split CHR '','' ''FOO,BAR'')) = ''FOO''"
    by (simp add: start_world_def)
  from unset_env_var_fails_validation[OF inv, where c = fake_collab and info = fake_info
      and t = "''fake''" and p = "''local''" and launcher = fake_launcher] pre
  have "fst (do_main fake_collab ?a ?w) =
          Inl (LauncherError ''MissingKeys''
            (str_join '','' (filter (\<lambda>k. environ ?w k = None) (str_split CHR '','' ''FOO,BAR''))))
      \<and> emitted ?w (snd (run fake_collab ?a ?w)) =
          [LoadJson (info_path ?a), GetLauncher ''fake'' ''local'',
           EnvironCheck (str_split CHR '','' ''FOO,BAR'')]"
    by blast
  then have "fst (do_main fake_collab ?a ?w) = Inl (LauncherError ''MissingKeys'' ''FOO'')
      \<and> emitted ?w (snd (run fake_collab ?a ?w)) =
          [LoadJson ''cluster_info.json'', GetLauncher ''fake'' ''local'', EnvironCheck [''FOO'', ''BAR'']]"
    unfolding msg by (simp add: cli_def default_info_path_def)
  with inv show ?thesis
    by simp
qed

text \<open>
  The claim as stated fails for \<open>dcos-launch pytest -e FOO=1,BAR\<close> with \<open>BAR\<close> unset:
  the \<open>=\<close> is found before the environment is consulted and the error is \<open>OptionError\<close>,
  not \<open>MissingKeys\<close>.
\<close>

theorem unset_env_var_counterexample:
  "invokes ((cli Pytest)\<lparr>env := Some ''FOO=1,BAR''\<rparr>) Pytest
   \<and> ''BAR'' \<in> set (str_split CHR '','' ''FOO=1,BAR'')
   \<and> environ (start_world cluster_up Map.empty :: (fake_fs, string) world) ''BAR'' = None
   \<and> fst (do_main fake_collab ((cli Pytest)\<lparr>env := Some ''FOO=1,BAR''\<rparr>)
        (start_world cluster_up Map.empty))
      = Inl (LauncherError ''OptionError'' option_error_msg)"
  by (simp add: eval_defs fake_defs str_upper_names)

subsection \<open>The log level\<close>

text \<open>
  Nothing after \<open>_handle_logging\<close> touches the levels of the loggers: each step of
  \<open>do_main\<close> keeps them, and so does their sequence.
\<close>

lemma keeps_bind:
  assumes "\<And>w. logger_level (snd (m w)) = logger_level w"
    and "\<And>x w. logger_level (snd (f x w)) = logger_level w"
  shows "logger_level (snd (bind_m m f w)) = logger_level w"
proof (cases "m w")
  case (Pair r w')
  with assms(1)[of w] have "logger_level w' = logger_level w" by simp
  with Pair assms(2) show ?thesis
    by (cases r) (simp_all add: bind_m_def)
qed

lemma keeps_steps:
  "logger_level (snd (return_m x w)) = logger_level w"
  "logger_level (snd (raise_m ex w)) = logger_level w"
  "logger_level (snd (lift_m r w)) = logger_level w"
  "logger_level (snd (call_m ev r w)) = logger_level w"
  "logger_level (snd (print_m line w)) = logger_level w"
  "logger_level (snd (exists_m c path w)) = logger_level w"
  "logger_level (snd (load_yaml_m c path w)) = logger_level w"
  "logger_level (snd (load_json_m c path w)) = logger_level w"
  "logger_level (snd (write_json_m c path d w)) = logger_level w"
  "logger_level (snd (get_launcher_m c t p w)) = logger_level w"
  "logger_level (snd (environ_check key_list w)) = logger_level w"
  "logger_level (snd (environ_get e w)) = logger_level w"
  by (simp_all add: monad_defs call_defs split: prod.splits)

lemma env_assignments_logger:
  "logger_level (snd (env_assignments es w)) = logger_level w"
  by (induction es arbitrary: w) (simp_all add: keeps_steps keeps_bind del: bind_return)

lemma env_prefix_logger:
  "logger_level (snd (env_prefix eo cmd w)) = logger_level w"
  by (cases eo) (simp_all add: env_prefix_def Let_def keeps_steps keeps_bind env_assignments_logger)

lemma do_main_logger:
  "logger_level (snd (do_main c a w)) = logger_level (snd (handle_logging (str_upper c (log_level a)) w))"
proof (cases "accepts_level c (log_level a)")
  case False
  then show ?thesis by (simp add: do_main_rejects handle_logging_rejects)
next
  case True
  then obtain w0 where h: "handle_logging (str_upper c (log_level a)) w = (Inr (), w0)"
    using handle_logging_accepts by blast
  have "logger_level (snd (do_main c a w)) = logger_level w0"
    unfolding do_main_def bind_result[where m = "handle_logging (str_upper c (log_level a))" and w = w, OF h]
    by (intro keeps_bind keeps_steps env_prefix_logger | simp only: split: if_split | intro conjI impI)+
  with h show ?thesis by simp
qed

lemma run_logger:
  "logger_level (snd (run c a w)) = logger_level (snd (do_main c a w))"
  by (auto simp: run_def main_def monad_defs split: prod.splits sum.splits option.splits)

lemma utf8_upper_ascii: "is_ascii s \<Longrightarrow> utf8_upper s = ascii_upper s"
proof (induction s rule: utf8_upper.induct)
  case 1
  then show ?case by (simp add: ascii_upper_def utf8_upper.simps)
next
  case (2 c)
  then show ?case by (simp add: ascii_upper_def utf8_upper.simps)
next
  case (3 c d cs)
  from "3.prems" have "(of_char c :: nat) < 128" and rest: "is_ascii (d # cs)"
    by (simp_all add: is_ascii_def)
  then have "c \<noteq> CHR 0xC4" by auto
  with "3.IH"(2) rest show ?case by (simp add: ascii_upper_def utf8_upper.simps)
qed

text \<open>
  C4, as amended. In every invocation a \<open>--log-level\<close> value is accepted exactly when
  \<open>str.upper\<close> takes it to one of \<open>CRITICAL\<close>, \<open>ERROR\<close>, \<open>WARNING\<close>, \<open>INFO\<close>, \<open>DEBUG\<close>,
  \<open>TRACE\<close>; any other value makes the invocation fail with the \<open>InvalidOption\<close> error
  and exit code 1. With \<open>str.upper\<close> as it is on ASCII strings, the default \<open>info\<close> is
  accepted, and an ASCII value is accepted exactly when it is one of \<open>critical\<close>,
  \<open>error\<close>, \<open>warning\<close>, \<open>info\<close>, \<open>debug\<close>, \<open>trace\<close> up to the case of its letters. When
  the upper-cased level is \<open>TRACE\<close> or \<open>CRITICAL\<close> the levels of the named loggers are
  what they were when the process ends; for \<open>ERROR\<close>, \<open>WARNING\<close>, \<open>INFO\<close> and \<open>DEBUG\<close>
  the loggers \<open>botocore\<close> and \<open>boto3\<close> are set to the next level up (\<open>CRITICAL\<close>,
  \<open>ERROR\<close>, \<open>WARNING\<close>, \<open>INFO\<close>), which is the requested level plus 10.
\<close>

theorem log_level_handling:
  "(isl (fst (handle_logging (str_upper c (log_level a)) w)) \<longleftrightarrow> \<not> accepts_level c (log_level a))
   \<and> (accepts_level c (log_level a) \<longleftrightarrow>
         str_upper c (log_level a) \<in> {''CRITICAL'', ''ERROR'', ''WARNING'', ''INFO'', ''DEBUG'', ''TRACE''})
   \<and> (ascii_faithful (str_upper c) \<longrightarrow> accepts_level c default_log_level)
   \<and> (ascii_faithful (str_upper c) \<and> is_ascii (log_level a) \<longrightarrow>
         (accepts_level c (log_level a) \<longleftrightarrow>
            ascii_upper (log_level a) \<in> set (map ascii_upper level_names)))
   \<and> (\<not> accepts_level c (log_level a) \<longrightarrow>
         fst (do_main c a w) =
           Inl (LauncherError ''InvalidOption'' (str_upper c (log_level a) @ '' is not a valid log level''))
         \<and> fst (run c a w) = Exit 1)
   \<and> (str_upper c (log_level a) \<in> {''TRACE'', ''CRITICAL''} \<longrightarrow>
         logger_level (snd (run c a w)) = logger_level w)
   \<and> (str_upper c (log_level a) = ''ERROR'' \<longrightarrow>
         logger_level (snd (run c a w)) =
           (logger_level w)(''botocore'' \<mapsto> logging_CRITICAL, ''boto3'' \<mapsto> logging_CRITICAL)
         \<and> logging_CRITICAL = logging_ERROR + 10)
   \<and> (str_upper c (log_level a) = ''WARNING'' \<longrightarrow>
         logger_level (snd (run c a w)) =
           (logger_level w)(''botocore'' \<mapsto> logging_ERROR, ''boto3'' \<mapsto> logging_ERROR)
         \<and> logging_ERROR = logging_WARNING + 10)
   \<and> (str_upper c (log_level a) = ''INFO'' \<longrightarrow>
         logger_level (snd (run c a w)) =
           (logger_level w)(''botocore'' \<mapsto> logging_WARNING, ''boto3'' \<mapsto> logging_WARNING)
         \<and> logging_WARNING = logging_INFO + 10)
   \<and> (str_upper c (log_level a) = ''DEBUG'' \<longrightarrow>
         logger_level (snd (run c a w)) =
           (logger_level w)(''botocore'' \<mapsto> logging_INFO, ''boto3'' \<mapsto> logging_INFO)
         \<and> logging_INFO = logging_DEBUG + 10)"
proof -
  have accept: "isl (fst (handle_logging (str_upper c (log_level a)) w)) \<longleftrightarrow> \<not> accepts_level c (log_level a)"
    using handle_logging_accepts[of c "log_level a" w] handle_logging_rejects[of c "log_level a" w]
    by (cases "accepts_level c (log_level a)") auto
  have names: "accepts_level c (log_level a) \<longleftrightarrow>
         str_upper c (log_level a) \<in> {''CRITICAL'', ''ERROR'', ''WARNING'', ''INFO'', ''DEBUG'', ''TRACE''}"
    by (rule accepts_level_iff)
  have "is_ascii default_log_level"
    by (simp add: is_ascii_def default_log_level_def)
  then have dflt: "accepts_level c default_log_level" if "ascii_faithful (str_upper c)"
    using that
    by (simp add: ascii_faithful_def accepts_level_def level_names_def default_log_level_def)
  have ascii: "accepts_level c (log_level a) \<longleftrightarrow>
            ascii_upper (log_level a) \<in> set (map ascii_upper level_names)"
    if "ascii_faithful (str_upper c)" "is_ascii (log_level a)"
    using that by (simp add: ascii_faithful_def accepts_level_def)
  have reject: "fst (do_main c a w) =
           Inl (LauncherError ''InvalidOption'' (str_upper c (log_level a) @ '' is not a valid log level''))
         \<and> fst (run c a w) = Exit 1" if "\<not> accepts_level c (log_level a)"
    using that by (simp add: do_main_rejects run_outcome)
  have lg: "logger_level (snd (run c a w)) =
      logger_level (snd (handle_logging (str_upper c (log_level a)) w))"
    by (simp add: run_logger do_main_logger)
  have levels:
    "str_upper c (log_level a) \<in> {''TRACE'', ''CRITICAL''} \<Longrightarrow>
       logger_level (snd (handle_logging (str_upper c (log_level a)) w)) = logger_level w"
    "str_upper c (log_level a) = ''ERROR'' \<Longrightarrow>
       logger_level (snd (handle_logging (str_upper c (log_level a)) w)) =
         (logger_level w)(''botocore'' \<mapsto> logging_CRITICAL, ''boto3'' \<mapsto> logging_CRITICAL)"
    "str_upper c (log_level a) = ''WARNING'' \<Longrightarrow>
       logger_level (snd (handle_logging (str_upper c (log_level a)) w)) =
         (logger_level w)(''botocore'' \<mapsto> logging_ERROR, ''boto3'' \<mapsto> logging_ERROR)"
    "str_upper c (log_level a) = ''INFO'' \<Longrightarrow>
       logger_level (snd (handle_logging (str_upper c (log_level a)) w)) =
         (logger_level w)(''botocore'' \<mapsto> logging_WARNING, ''boto3'' \<mapsto> logging_WARNING)"
    "str_upper c (log_level a) = ''DEBUG'' \<Longrightarrow>
       logger_level (snd (handle_logging (str_upper c (log_level a)) w)) =
         (logger_level w)(''botocore'' \<mapsto> logging_INFO, ''boto3'' \<mapsto> logging_INFO)"
    by (auto simp: handle_logging_unfold level_of_str_def Let_def logging_CRITICAL_def
        logging_ERROR_def logging_WARNING_def logging_INFO_def logging_DEBUG_def)
  have steps: "logging_CRITICAL = logging_ERROR + 10" "logging_ERROR = logging_WARNING + 10"
    "logging_WARNING = logging_INFO + 10" "logging_INFO = logging_DEBUG + 10"
    by (simp_all add: logging_CRITICAL_def logging_ERROR_def logging_WARNING_def
        logging_INFO_def logging_DEBUG_def)
  from accept names dflt ascii reject levels steps show ?thesis
    unfolding lg by blast
qed

theorem log_level_handling_witness:
  "ascii_faithful (str_upper fake_collab)
   \<and> is_ascii ''Debug'' \<and> accepts_level fake_collab ''Debug''
   \<and> ascii_upper ''Debug'' \<in> set (map ascii_upper level_names)
   \<and> str_upper fake_collab ''Debug'' = ''DEBUG''
   \<and> logger_level (snd (run fake_collab ((cli Describe)\<lparr>log_level := ''Debug''\<rparr>)
         (start_world cluster_up Map.empty))) = [''botocore'' \<mapsto> 20, ''boto3'' \<mapsto> 20]
   \<and> str_upper fake_collab ''TRACE'' \<in> {''TRACE'', ''CRITICAL''}
   \<and> logger_level (snd (run fake_collab ((cli Describe)\<lparr>log_level := ''TRACE''\<rparr>)
         (start_world cluster_up Map.empty))) = Map.empty
   \<and> is_ascii ''loud'' \<and> \<not> accepts_level fake_collab ''loud''
   \<and> fst (run fake_collab ((cli Describe)\<lparr>log_level := ''loud''\<rparr>)
         (start_world cluster_up Map.empty)) = Exit 1"
proof -
  let ?w = "start_world cluster_up Map.empty :: (fake_fs, string) world"
  let ?debug = "(cli Describe)\<lparr>log_level := ''Debug''\<rparr>"
  let ?trace = "(cli Describe)\<lparr>log_level := ''TRACE''\<rparr>"
  let ?loud = "(cli Describe)\<lparr>log_level := ''loud''\<rparr>"
  have up: "str_upper fake_collab = utf8_upper"
    by (simp add: fake_collab_def)
  have faithful: "ascii_faithful (str_upper fake_collab)"
    by (simp add: up ascii_faithful_def utf8_upper_ascii)
  have lv: "is_ascii ''Debug''" "str_upper fake_collab ''Debug'' = ''DEBUG''"
    "str_upper fake_collab ''TRACE'' \<in> {''TRACE'', ''CRITICAL''}" "is_ascii ''loud''"
    "str_upper fake_collab ''loud'' = ''LOUD''"
    by (simp_all add: up str_upper_samples is_ascii_def)
  have start: "logger_level ?w = Map.empty"
    by (simp add: start_world_def)
  note debug = log_level_handling[of fake_collab ?debug ?w]
  note trace = log_level_handling[of fake_collab ?trace ?w]
  note loud = log_level_handling[of fake_collab ?loud ?w]
  have sel: "log_level ?debug = ''Debug''" "log_level ?trace = ''TRACE''" "log_level ?loud = ''loud''"
    by simp_all
  from debug lv(2) have d1: "accepts_level fake_collab ''Debug''"
    unfolding sel by blast
  from debug faithful lv(1) d1 have d2: "ascii_upper ''Debug'' \<in> set (map ascii_upper level_names)"
    unfolding sel by blast
  from debug lv(2) have "logger_level (snd (run fake_collab ?debug ?w)) =
      (logger_level ?w)(''botocore'' \<mapsto> logging_INFO, ''boto3'' \<mapsto> logging_INFO)"
    unfolding sel by blast
  then have d3: "logger_level (snd (run fake_collab ?debug ?w)) = [''botocore'' \<mapsto> 20, ''boto3'' \<mapsto> 20]"
    by (simp add: start logging_INFO_def)
  note d = d1 d2 d3
  from trace lv(3) have "logger_level (snd (run fake_collab ?trace ?w)) = logger_level ?w"
    unfolding sel by blast
  then have t: "logger_level (snd (run fake_collab ?trace ?w)) = Map.empty"
    by (simp add: start)
  from loud lv(5) have l1: "\<not> accepts_level fake_collab ''loud''"
    unfolding sel by simp
  with loud have l2: "fst (run fake_collab ?loud ?w) = Exit 1"
    unfolding sel by blast
  note l = l1 l2
  from faithful lv d t l show ?thesis
    by simp
qed

text \<open>
  The claim as stated fails for \<open>dcos-launch describe -L \<close>\<open>dotless_info\<close>: the value is
  not one of the six names in any case of its letters (the dotless i is another letter
  than \<open>i\<close>; lower-casing and Unicode case folding keep them apart), yet \<open>str.upper\<close>
  takes it to \<open>INFO\<close>, so the invocation is accepted at level \<open>INFO\<close>: it exits with 0
  and the loggers are set to \<open>WARNING\<close>.
\<close>

theorem dotless_info_counterexample:
  "\<not> is_ascii dotless_info
   \<and> dotless_info \<notin> set level_names
   \<and> ascii_upper dotless_info \<notin> set (map ascii_upper level_names)
   \<and> str_upper fake_collab dotless_info = ''INFO''
   \<and> fst (run fake_collab ((cli Describe)\<lparr>log_level := dotless_info\<rparr>)
         (start_world cluster_up Map.empty)) = Exit 0
   \<and> logger_level (snd (run fake_collab ((cli Describe)\<lparr>log_level := dotless_info\<rparr>)
         (start_world cluster_up Map.empty))) = [''botocore'' \<mapsto> 30, ''boto3'' \<mapsto> 30]"
proof -
  have "\<not> is_ascii dotless_info" "dotless_info \<notin> set level_names"
    by (simp_all add: is_ascii_def dotless_info_def level_names_def)
  moreover have "ascii_upper dotless_info = [CHR 0xC4, CHR 0xB1] @ ''NFO''"
    by code_simp
  then have "ascii_upper dotless_info \<notin> set (map ascii_upper level_names)"
    by (simp add: level_names_def ascii_upper_names)
  moreover have "str_upper fake_collab dotless_info = ''INFO''"
    by (simp add: fake_collab_def str_upper_samples)
  moreover have
    "fst (run fake_collab ((cli Describe)\<lparr>log_level := dotless_info\<rparr>)
         (start_world cluster_up Map.empty)) = Exit 0"
    "logger_level (snd (run fake_collab ((cli Describe)\<lparr>log_level := dotless_info\<rparr>)
         (start_world cluster_up Map.empty))) = [''botocore'' \<mapsto> 30, ''boto3'' \<mapsto> 30]"
    by (simp_all add: eval_defs fake_defs str_upper_samples)
  ultimately show ?thesis
    by simp
qed

end
